theory Spec2Isabelle
  imports Complex_Main
begin

section \<open>Numbers\<close>

text \<open>
  The analyser computes with IEEE doubles (numpy \<open>float64\<close> and Python \<open>float\<close>).
  A double is modelled by its exact value when it is finite, and by one of the three
  special values otherwise. Rounding, overflow and the sign of zero are not modelled.
\<close>

datatype pyfloat = Fin rat | PInf | NInf | NaN

fun isnan :: "pyfloat \<Rightarrow> bool" where
  "isnan NaN = True"
| "isnan _ = False"

fun isinf :: "pyfloat \<Rightarrow> bool" where
  "isinf PInf = True"
| "isinf NInf = True"
| "isinf _ = False"

fun isfinite :: "pyfloat \<Rightarrow> bool" where
  "isfinite (Fin _) = True"
| "isfinite _ = False"

section \<open>The JSON snapshot (llm\_client.py)\<close>

text \<open>
  The values \<open>_prepare_data_for_json\<close> tells apart with \<open>isinstance\<close>. A numpy
  \<open>float64\<close> is both an \<open>np.floating\<close> and a Python \<open>float\<close>; the other numpy
  floats are \<open>np.floating\<close> only. \<open>Series\<close> holds the items of \<open>data.to_dict()\<close>,
  \<open>DataFrame\<close> the rows of a numeric frame, \<open>Timestamp\<close> the text \<open>str(data)\<close> gives.
\<close>

datatype pydata =
    NpInteger int
  | NpFloat64 pyfloat
  | NpFloating pyfloat
  | NdArray "pydata list"
  | Series "(string \<times> pydata) list"
  | DataFrame "(string \<times> pyfloat) list list"
  | Dict "(string \<times> pydata) list"
  | PyList "pydata list"
  | Timestamp string
  | PyFloat pyfloat
  | PyInt int
  | PyStr string
  | PyBool bool
  | PyNone

text \<open>\<open>isinstance(x, float) and (np.isnan(x) or np.isinf(x))\<close>, the test of the array branch.\<close>

fun float_nan_or_inf :: "pydata \<Rightarrow> bool" where
  "float_nan_or_inf (NpFloat64 x) = (isnan x \<or> isinf x)"
| "float_nan_or_inf (PyFloat x) = (isnan x \<or> isinf x)"
| "float_nan_or_inf _ = False"

text \<open>
  \<open>data.replace([np.inf, -np.inf], np.nan).dropna()\<close> keeps the rows without a missing
  value; \<open>to_dict('records')\<close> turns each into a dict.
\<close>

definition row_complete :: "(string \<times> pyfloat) list \<Rightarrow> bool" where
  "row_complete r = list_all (\<lambda>kv. isfinite (snd kv)) r"

definition row_record :: "(string \<times> pyfloat) list \<Rightarrow> pydata" where
  "row_record r = Dict (map (\<lambda>kv. (fst kv, PyFloat (snd kv))) r)"

fun prepare_data_for_json :: "pydata \<Rightarrow> pydata" where
  "prepare_data_for_json (NpInteger n) = PyFloat (Fin (of_int n))"
| "prepare_data_for_json (NpFloat64 x) = (if isnan x \<or> isinf x then PyNone else PyFloat x)"
| "prepare_data_for_json (NpFloating x) = (if isnan x \<or> isinf x then PyNone else PyFloat x)"
| "prepare_data_for_json (NdArray xs) =
     PyList (map prepare_data_for_json (filter (\<lambda>x. \<not> float_nan_or_inf x) xs))"
| "prepare_data_for_json (Series kvs) =
     Dict (map (\<lambda>kv. (fst kv, prepare_data_for_json (snd kv)))
            (filter (\<lambda>kv. snd kv \<noteq> PyNone) kvs))"
| "prepare_data_for_json (DataFrame rs) = PyList (map row_record (filter row_complete rs))"
| "prepare_data_for_json (Dict kvs) =
     Dict (map (\<lambda>kv. (fst kv, prepare_data_for_json (snd kv)))
            (filter (\<lambda>kv. snd kv \<noteq> PyNone) kvs))"
| "prepare_data_for_json (PyList xs) =
     PyList (map prepare_data_for_json (filter (\<lambda>x. x \<noteq> PyNone) xs))"
| "prepare_data_for_json (Timestamp s) = PyStr s"
| "prepare_data_for_json (PyFloat x) = (if isnan x then PyNone else PyFloat x)"
| "prepare_data_for_json (PyInt n) = PyInt n"
| "prepare_data_for_json (PyStr s) = PyStr s"
| "prepare_data_for_json (PyBool b) = PyBool b"
| "prepare_data_for_json PyNone = PyNone"

text \<open>Every number in a value is finite.\<close>

fun all_finite :: "pydata \<Rightarrow> bool" where
  "all_finite (NpFloat64 x) = isfinite x"
| "all_finite (NpFloating x) = isfinite x"
| "all_finite (PyFloat x) = isfinite x"
| "all_finite (NdArray xs) = list_all all_finite xs"
| "all_finite (PyList xs) = list_all all_finite xs"
| "all_finite (Series kvs) = list_all (\<lambda>kv. all_finite (snd kv)) kvs"
| "all_finite (Dict kvs) = list_all (\<lambda>kv. all_finite (snd kv)) kvs"
| "all_finite (DataFrame rs) = list_all row_complete rs"
| "all_finite _ = True"

section \<open>The analysed series and the analysis object (analysis.py)\<close>

text \<open>
  A row of the data frame: the OHLCV bar and the indicator columns that the scoring reads
  back (\<open>EMA_<period>\<close> and \<open>OBV\<close>). Prices and volume are finite; an indicator column
  may hold NaN. The frame says which of the indicator columns it has.
\<close>

record candle =
  Date :: nat
  Open :: rat
  High :: rat
  Low :: rat
  Close :: rat
  Volume :: rat
  col_EMA :: "nat \<Rightarrow> pyfloat"
  col_OBV :: pyfloat

record dataframe =
  candles :: "candle list"
  has_EMA :: "nat \<Rightarrow> bool"
  has_OBV :: bool

text \<open>
  The entries of \<open>self.indicators\<close>. A scalar entry is absent (\<open>None\<close>), or present with
  Python's \<open>None\<close> (\<open>Some None\<close>) or with a number; a dict entry, as the
  \<open>_calculate_*\<close> methods store it, has all its keys.
\<close>

type_synonym pyopt = "pyfloat option"

record macd_rec =
  macd_line :: pyopt
  macd_signal :: pyopt
  histogram :: pyopt

record bollinger_rec =
  bb_upper :: pyopt
  bb_middle :: pyopt
  bb_lower :: pyopt
  bb_width :: pyopt
  bb_percent :: pyopt

record stochastic_rec =
  stoch_K :: pyopt
  stoch_D :: pyopt

record adx_rec =
  adx :: pyopt
  di_plus :: pyopt
  di_minus :: pyopt

record pivots_rec =
  pivot :: rat
  pivot_r1 :: rat
  pivot_r2 :: rat
  pivot_r3 :: rat
  pivot_s1 :: rat
  pivot_s2 :: rat
  pivot_s3 :: rat

record ma_rec =
  sma :: "(nat \<times> pyfloat) list"
  ema :: "(nat \<times> pyfloat) list"

record indicators =
  moving_averages :: "ma_rec option"
  RSI :: "pyopt option"
  MACD :: "macd_rec option"
  Bollinger :: "bollinger_rec option"
  Stochastic :: "stochastic_rec option"
  ADX :: "adx_rec option"
  ATR :: "pyopt option"
  CCI :: "pyopt option"
  OBV :: "pyopt option"
  VWAP :: "pyopt option"
  Williams_R :: "pyopt option"
  MFI :: "pyopt option"
  CMF :: "pyopt option"
  ROC :: "pyopt option"
  Pivots :: "pivots_rec option"

text \<open>\<open>not self.indicators\<close>: the dict has no key.\<close>

definition no_indicators :: "indicators \<Rightarrow> bool" where
  "no_indicators ind =
     (moving_averages ind = None \<and> RSI ind = None \<and> MACD ind = None \<and> Bollinger ind = None
      \<and> Stochastic ind = None \<and> ADX ind = None \<and> ATR ind = None \<and> CCI ind = None
      \<and> OBV ind = None \<and> VWAP ind = None \<and> Williams_R ind = None \<and> MFI ind = None
      \<and> CMF ind = None \<and> ROC ind = None \<and> Pivots ind = None)"

text \<open>The dicts of levels; a retracement or extension level is keyed by its ratio
  (the source's key is the ratio printed as a percentage).\<close>

record fib_levels =
  fib_high :: rat
  fib_low :: rat
  retracement :: "(rat \<times> rat) list"
  extension :: "(rat \<times> rat) list"

record sr_levels =
  support :: "rat list"
  resistance :: "rat list"
  current_price :: rat

text \<open>The attributes of a \<open>TechnicalAnalysis\<close> object that the analysis reads and writes;
  an empty dict of levels is \<open>None\<close>.\<close>

record technical_analysis =
  data :: "dataframe option"
  indicators :: indicators
  fibonacci_levels :: "fib_levels option"
  support_resistance :: "sr_levels option"

datatype error = ZeroDivisionError | UnboundLocalError | IndexError | LibraryError

subsection \<open>calculate\_all\_indicators\<close>

text \<open>
  The indicator pipeline calls the external \<open>ta\<close> library; it is a parameter here: from
  the \<open>include_vwap\<close> flag, a copy of the frame and the indicator dict it gives the
  annotated frame and the filled dict, or raises.
\<close>

definition calculate_all_indicators ::
  "(bool \<Rightarrow> dataframe \<Rightarrow> indicators \<Rightarrow> error + dataframe \<times> indicators) \<Rightarrow> bool
     \<Rightarrow> technical_analysis \<Rightarrow> error + dataframe option \<times> technical_analysis" where
  "calculate_all_indicators pipeline include_vwap self =
     (case data self of
        None \<Rightarrow> Inr (None, self)
      | Some df0 \<Rightarrow>
          if candles df0 = [] then Inr (None, self)
          else (case pipeline include_vwap df0 (indicators self) of
                  Inl e \<Rightarrow> Inl e
                | Inr (df, ind) \<Rightarrow> Inr (Some df, self\<lparr>data := Some df, indicators := ind\<rparr>)))"

subsection \<open>calculate\_fibonacci\_levels\<close>

definition FIBONACCI_LEVELS :: "rat list" where
  "FIBONACCI_LEVELS = [0, 0.236, 0.382, 0.5, 0.618, 0.786, 1.0, 1.618, 2.618]"

definition EXTENSION_LEVELS :: "rat list" where
  "EXTENSION_LEVELS = [1.272, 1.414, 1.618, 2.0, 2.618]"

text \<open>\<open>Series.max()\<close> and \<open>Series.min()\<close> of a column with a first value.\<close>

definition series_max :: "rat \<Rightarrow> rat list \<Rightarrow> rat" where
  "series_max x xs = fold max xs x"

definition series_min :: "rat \<Rightarrow> rat list \<Rightarrow> rat" where
  "series_min x xs = fold min xs x"

definition fibonacci_of :: "candle \<Rightarrow> candle list \<Rightarrow> fib_levels" where
  "fibonacci_of c cs =
     (let high = series_max (High c) (map High cs);
          low = series_min (Low c) (map Low cs);
          diff = high - low
      in \<lparr>fib_high = high, fib_low = low,
          retracement = map (\<lambda>level. (level, high - diff * level)) FIBONACCI_LEVELS,
          extension = map (\<lambda>level. (level, high + diff * (level - 1))) EXTENSION_LEVELS\<rparr>)"

definition calculate_fibonacci_levels ::
  "technical_analysis \<Rightarrow> fib_levels option \<times> technical_analysis" where
  "calculate_fibonacci_levels self =
     (case data self of
        None \<Rightarrow> (None, self)
      | Some df \<Rightarrow>
          (case candles df of
             [] \<Rightarrow> (None, self)
           | c # cs \<Rightarrow>
               (let r = fibonacci_of c cs
                in (Some r, self\<lparr>fibonacci_levels := Some r\<rparr>))))"

subsection \<open>identify\_support\_resistance\<close>

text \<open>
  \<open>rolling(window=w, center=True)\<close> with the default \<open>min_periods = w\<close>: the window of row
  \<open>i\<close> ends (exclusively) at \<open>i + 1 + (w - 1) // 2\<close> and holds \<open>w\<close> rows; where it does
  not fit into the frame the result is NaN, here \<open>None\<close>.
\<close>

definition rolling_window :: "nat \<Rightarrow> nat \<Rightarrow> nat \<Rightarrow> (nat \<times> nat) option" where
  "rolling_window w n i =
     (let e = i + 1 + (w - 1) div 2
      in if 1 \<le> w \<and> w \<le> e \<and> e \<le> n then Some (e - w, e) else None)"

definition rolling :: "(rat \<Rightarrow> rat \<Rightarrow> rat) \<Rightarrow> nat \<Rightarrow> rat list \<Rightarrow> nat \<Rightarrow> rat option" where
  "rolling f w xs i =
     (case rolling_window w (length xs) i of
        None \<Rightarrow> None
      | Some (s, e) \<Rightarrow>
          (case take (e - s) (drop s xs) of
             [] \<Rightarrow> None
           | y # ys \<Rightarrow> Some (fold f ys y)))"

text \<open>\<open>df[df[col] == df[roll]][col]\<close>: the values that equal the rolling value of their row
  (a comparison with NaN is false).\<close>

definition local_extrema :: "(rat \<Rightarrow> rat \<Rightarrow> rat) \<Rightarrow> nat \<Rightarrow> rat list \<Rightarrow> rat list" where
  "local_extrema f w xs =
     map (\<lambda>i. xs ! i) (filter (\<lambda>i. rolling f w xs i = Some (xs ! i)) [0..<length xs])"

text \<open>\<open>unique()\<close>: the distinct values in the order of their first appearance.\<close>

fun unique :: "'a list \<Rightarrow> 'a list" where
  "unique [] = []"
| "unique (x # xs) = x # unique (filter (\<lambda>y. y \<noteq> x) xs)"

text \<open>Python's slices \<open>xs[k:]\<close> and \<open>xs[:k]\<close>, where a negative \<open>k\<close> counts from the end.\<close>

definition slice_from :: "int \<Rightarrow> 'a list \<Rightarrow> 'a list" where
  "slice_from k xs = (if k < 0 then drop (nat (int (length xs) + k)) xs else drop (nat k) xs)"

definition slice_to :: "int \<Rightarrow> 'a list \<Rightarrow> 'a list" where
  "slice_to k xs = (if k < 0 then take (nat (int (length xs) + k)) xs else take (nat k) xs)"

definition support_resistance_of :: "nat \<Rightarrow> int \<Rightarrow> candle list \<Rightarrow> sr_levels" where
  "support_resistance_of window num_levels cs =
     (let price = Close (last cs);
          all_support = unique (local_extrema min window (map Low cs));
          support_levels = filter (\<lambda>level. level < price) all_support;
          support_levels =
            (if int (length support_levels) > num_levels
             then slice_from (- num_levels) (sort support_levels) else support_levels);
          all_resistance = unique (local_extrema max window (map High cs));
          resistance_levels = filter (\<lambda>level. level > price) all_resistance;
          resistance_levels =
            (if int (length resistance_levels) > num_levels
             then slice_to num_levels (sort resistance_levels) else resistance_levels)
      in \<lparr>support = support_levels, resistance = resistance_levels, current_price = price\<rparr>)"

definition identify_support_resistance ::
  "nat \<Rightarrow> int \<Rightarrow> technical_analysis \<Rightarrow> sr_levels option \<times> technical_analysis" where
  "identify_support_resistance window num_levels self =
     (case data self of
        None \<Rightarrow> (None, self)
      | Some df \<Rightarrow>
          if candles df = [] then (None, self)
          else (let r = support_resistance_of window num_levels (candles df)
                in (Some r, self\<lparr>support_resistance := Some r\<rparr>)))"

section \<open>Scoring (analysis.py)\<close>

subsection \<open>Arithmetic and tests on doubles\<close>

text \<open>
  Arithmetic of numpy doubles: it never raises, a division by zero gives an infinity or
  NaN. Every comparison with NaN is false.
\<close>

fun pf_sgn :: "pyfloat \<Rightarrow> int" where
  "pf_sgn (Fin x) = (if x < 0 then - 1 else if x = 0 then 0 else 1)"
| "pf_sgn PInf = 1"
| "pf_sgn NInf = - 1"
| "pf_sgn NaN = 0"

definition pf_signed_inf :: "int \<Rightarrow> pyfloat" where
  "pf_signed_inf s = (if s = 0 then NaN else if 0 < s then PInf else NInf)"

fun pf_neg :: "pyfloat \<Rightarrow> pyfloat" where
  "pf_neg (Fin x) = Fin (- x)"
| "pf_neg PInf = NInf"
| "pf_neg NInf = PInf"
| "pf_neg NaN = NaN"

fun pf_abs :: "pyfloat \<Rightarrow> pyfloat" where
  "pf_abs (Fin x) = Fin \<bar>x\<bar>"
| "pf_abs PInf = PInf"
| "pf_abs NInf = PInf"
| "pf_abs NaN = NaN"

fun pf_add :: "pyfloat \<Rightarrow> pyfloat \<Rightarrow> pyfloat" where
  "pf_add NaN _ = NaN"
| "pf_add _ NaN = NaN"
| "pf_add (Fin x) (Fin y) = Fin (x + y)"
| "pf_add PInf NInf = NaN"
| "pf_add NInf PInf = NaN"
| "pf_add PInf _ = PInf"
| "pf_add NInf _ = NInf"
| "pf_add (Fin x) y = y"

definition pf_sub :: "pyfloat \<Rightarrow> pyfloat \<Rightarrow> pyfloat" where
  "pf_sub x y = pf_add x (pf_neg y)"

fun pf_mul :: "pyfloat \<Rightarrow> pyfloat \<Rightarrow> pyfloat" where
  "pf_mul NaN _ = NaN"
| "pf_mul _ NaN = NaN"
| "pf_mul (Fin x) (Fin y) = Fin (x * y)"
| "pf_mul x y = pf_signed_inf (pf_sgn x * pf_sgn y)"

fun pf_div :: "pyfloat \<Rightarrow> pyfloat \<Rightarrow> pyfloat" where
  "pf_div NaN _ = NaN"
| "pf_div _ NaN = NaN"
| "pf_div (Fin x) (Fin y) = (if y = 0 then pf_signed_inf (pf_sgn (Fin x)) else Fin (x / y))"
| "pf_div (Fin x) _ = Fin 0"
| "pf_div x (Fin y) = (if y < 0 then pf_neg x else x)"
| "pf_div _ _ = NaN"

fun pf_less :: "pyfloat \<Rightarrow> pyfloat \<Rightarrow> bool" where
  "pf_less NaN _ = False"
| "pf_less _ NaN = False"
| "pf_less (Fin x) (Fin y) = (x < y)"
| "pf_less _ NInf = False"
| "pf_less PInf _ = False"
| "pf_less _ _ = True"

text \<open>Truth value of a number or \<open>None\<close>: \<open>None\<close> and zero are false, NaN is true.\<close>

fun truthy :: "pyopt \<Rightarrow> bool" where
  "truthy None = False"
| "truthy (Some x) = (x \<noteq> Fin 0)"

text \<open>\<open>dict.get(key)\<close> of a scalar entry: \<open>None\<close> for a missing key.\<close>

fun dict_get :: "pyopt option \<Rightarrow> pyopt" where
  "dict_get None = None"
| "dict_get (Some v) = v"

text \<open>\<open>series.mean()\<close>, which skips NaN.\<close>

definition series_mean :: "pyfloat list \<Rightarrow> pyfloat" where
  "series_mean xs =
     (let ys = filter (\<lambda>x. \<not> isnan x) xs
      in if ys = [] then NaN else pf_div (fold (\<lambda>y acc. pf_add acc y) ys (Fin 0)) (Fin (of_nat (length ys))))"

subsection \<open>calculate\_trend\_strength\<close>

text \<open>The reasons, which the source formats as text, with the numbers they print.\<close>

datatype reason =
    RSI_overbought pyfloat | RSI_bullish pyfloat | RSI_oversold pyfloat | RSI_bearish pyfloat
  | MACD_positive pyfloat | MACD_negative pyfloat
  | ADX_bullish | ADX_bearish | ADX_weak pyfloat
  | EMAs nat nat
  | BB_top | BB_bottom
  | OBV_rising | OBV_falling

datatype reasoning = No_indicators | No_clear_signals | Reasons "reason list"

record trend_acc =
  trend_score :: rat
  total_weight :: rat
  reasons :: "reason list"

definition contribute :: "rat \<Rightarrow> rat \<Rightarrow> reason list \<Rightarrow> trend_acc \<Rightarrow> trend_acc" where
  "contribute score weight rs acc =
     \<lparr>trend_score = trend_score acc + score, total_weight = total_weight acc + weight,
      reasons = reasons acc @ rs\<rparr>"

definition rsi_block :: "indicators \<Rightarrow> trend_acc \<Rightarrow> trend_acc" where
  "rsi_block ind acc =
     (case dict_get (RSI ind) of
        None \<Rightarrow> acc
      | Some rsi \<Rightarrow>
          if \<not> truthy (Some rsi) then acc
          else if pf_less (Fin 70) rsi then contribute 2 2 [RSI_overbought rsi] acc
          else if pf_less (Fin 50) rsi then contribute 1 1 [RSI_bullish rsi] acc
          else if pf_less rsi (Fin 30) then contribute (- 2) 2 [RSI_oversold rsi] acc
          else contribute (- 1) 1 [RSI_bearish rsi] acc)"

definition macd_block :: "indicators \<Rightarrow> trend_acc \<Rightarrow> trend_acc" where
  "macd_block ind acc =
     (case MACD ind of
        None \<Rightarrow> acc
      | Some m \<Rightarrow>
          (case histogram m of
             None \<Rightarrow> acc
           | Some h \<Rightarrow>
               if pf_less (Fin 0) h then contribute 1.5 1.5 [MACD_positive h] acc
               else contribute (- 1.5) 1.5 [MACD_negative h] acc))"

definition adx_block :: "indicators \<Rightarrow> trend_acc \<Rightarrow> trend_acc" where
  "adx_block ind acc =
     (case ADX ind of
        None \<Rightarrow> acc
      | Some a \<Rightarrow>
          (case adx a of
             None \<Rightarrow> acc
           | Some v \<Rightarrow>
               if truthy (Some v) \<and> pf_less (Fin 25) v then
                 (case (di_plus a, di_minus a) of
                    (Some p, Some m) \<Rightarrow>
                      if truthy (Some p) \<and> truthy (Some m) then
                        (if pf_less m p then contribute 2 2 [ADX_bullish] acc
                         else contribute (- 2) 2 [ADX_bearish] acc)
                      else acc
                  | _ \<Rightarrow> acc)
               else if truthy (Some v) then contribute 0 0 [ADX_weak v] acc
               else acc))"

text \<open>The loop over the EMA periods: score, weight, count above and count below.\<close>

definition ma_step :: "dataframe \<Rightarrow> candle \<Rightarrow> nat \<Rightarrow> rat \<times> rat \<times> nat \<times> nat \<Rightarrow> rat \<times> rat \<times> nat \<times> nat" where
  "ma_step df row period st =
     (case st of (ma_score, ma_weight, ma_above, ma_below) \<Rightarrow>
        if has_EMA df period then
          (let ma_value = col_EMA row period
           in if \<not> isnan ma_value then
                (if pf_less ma_value (Fin (Close row))
                 then (ma_score + 1, ma_weight + 1, ma_above + 1, ma_below)
                 else (ma_score - 1, ma_weight + 1, ma_above, ma_below + 1))
              else st)
        else st)"

definition ma_block :: "dataframe option \<Rightarrow> trend_acc \<Rightarrow> trend_acc" where
  "ma_block d acc =
     (case d of
        None \<Rightarrow> acc
      | Some df \<Rightarrow>
          if candles df = [] then acc
          else (case fold (ma_step df (last (candles df))) [9, 21, 50, 200] (0, 0, 0, 0) of
                  (ma_score, ma_weight, ma_above, ma_below) \<Rightarrow>
                    if 0 < ma_weight then contribute ma_score ma_weight [EMAs ma_above ma_below] acc
                    else acc))"

definition bb_block :: "indicators \<Rightarrow> trend_acc \<Rightarrow> trend_acc" where
  "bb_block ind acc =
     (case Bollinger ind of
        None \<Rightarrow> acc
      | Some bb \<Rightarrow>
          (case bb_percent bb of
             None \<Rightarrow> acc
           | Some pc \<Rightarrow>
               if pf_less (Fin 0.8) pc then contribute (- 0.5) 0.5 [BB_top] acc
               else if pf_less pc (Fin 0.2) then contribute 0.5 0.5 [BB_bottom] acc
               else contribute 0 0.5 [] acc))"

text \<open>The OBV block reads the last row without testing that there is one.\<close>

definition obv_block :: "indicators \<Rightarrow> dataframe option \<Rightarrow> trend_acc \<Rightarrow> error + trend_acc" where
  "obv_block ind d acc =
     (if \<not> truthy (dict_get (OBV ind)) then Inr acc
      else (case d of
              None \<Rightarrow> Inr acc
            | Some df \<Rightarrow>
                if \<not> has_OBV df then Inr acc
                else if candles df = [] then Inl IndexError
                else (let cs = candles df;
                          obv_current = col_OBV (last cs);
                          obv_prev = (if 5 < length cs then col_OBV (cs ! (length cs - 5))
                                      else obv_current)
                      in if pf_less (pf_mul obv_prev (Fin 1.02)) obv_current
                         then Inr (contribute 1 1 [OBV_rising] acc)
                         else if pf_less obv_current (pf_mul obv_prev (Fin 0.98))
                         then Inr (contribute (- 1) 1 [OBV_falling] acc)
                         else Inr (contribute 0 1 [] acc))))"

definition trend_totals :: "technical_analysis \<Rightarrow> error + trend_acc" where
  "trend_totals self =
     obv_block (indicators self) (data self)
       (bb_block (indicators self)
         (ma_block (data self)
           (adx_block (indicators self)
             (macd_block (indicators self)
               (rsi_block (indicators self)
                 \<lparr>trend_score = 0, total_weight = 0, reasons = []\<rparr>)))))"

definition calculate_trend_strength :: "technical_analysis \<Rightarrow> error + rat \<times> reasoning" where
  "calculate_trend_strength self =
     (if no_indicators (indicators self) then Inr (0, No_indicators)
      else (case trend_totals self of
              Inl e \<Rightarrow> Inl e
            | Inr acc \<Rightarrow>
                (let final_score =
                       (if 0 < total_weight acc
                        then min 100 (max (- 100) (trend_score acc / total_weight acc * 50))
                        else 0);
                     reasoning = (if reasons acc \<noteq> [] then Reasons (take 4 (reasons acc))
                                  else No_clear_signals)
                 in Inr (final_score, reasoning))))"

subsection \<open>calculate\_probabilities\<close>

record tally =
  bullish_signals :: nat
  bearish_signals :: nat
  neutral_signals :: nat
  total_signals :: nat

record probabilities = tally +
  bullish_probability :: rat
  bearish_probability :: rat
  neutral_probability :: rat

definition add_bullish :: "tally \<Rightarrow> tally" where
  "add_bullish t = t\<lparr>bullish_signals := bullish_signals t + 1\<rparr>"

definition add_bearish :: "tally \<Rightarrow> tally" where
  "add_bearish t = t\<lparr>bearish_signals := bearish_signals t + 1\<rparr>"

definition add_neutral :: "nat \<Rightarrow> tally \<Rightarrow> tally" where
  "add_neutral n t = t\<lparr>neutral_signals := neutral_signals t + n\<rparr>"

definition add_total :: "nat \<Rightarrow> tally \<Rightarrow> tally" where
  "add_total n t = t\<lparr>total_signals := total_signals t + n\<rparr>"

text \<open>The vote of a value against an upper and a lower threshold.\<close>

definition vote_between :: "rat \<Rightarrow> rat \<Rightarrow> pyfloat \<Rightarrow> tally \<Rightarrow> tally" where
  "vote_between hi lo x t =
     (if pf_less (Fin hi) x then add_bullish t
      else if pf_less x (Fin lo) then add_bearish t
      else add_neutral 1 t)"

definition p_rsi :: "indicators \<Rightarrow> tally \<Rightarrow> tally" where
  "p_rsi ind t =
     (case dict_get (RSI ind) of
        None \<Rightarrow> t
      | Some rsi \<Rightarrow> if truthy (Some rsi) then add_total 1 (vote_between 60 40 rsi t) else t)"

definition p_macd :: "indicators \<Rightarrow> tally \<Rightarrow> tally" where
  "p_macd ind t =
     (case MACD ind of
        None \<Rightarrow> t
      | Some m \<Rightarrow>
          add_total 1
            (case histogram m of
               None \<Rightarrow> t
             | Some h \<Rightarrow>
                 if \<not> truthy (Some h) then t
                 else if pf_less (pf_abs h) (Fin 0.001) then add_neutral 1 t
                 else if pf_less (Fin 0) h then add_bullish t
                 else add_bearish t))"

definition p_stochastic :: "indicators \<Rightarrow> tally \<Rightarrow> tally" where
  "p_stochastic ind t =
     (case Stochastic ind of
        None \<Rightarrow> t
      | Some st \<Rightarrow>
          add_total 1
            (case stoch_K st of
               None \<Rightarrow> t
             | Some k \<Rightarrow> if truthy (Some k) then vote_between 70 30 k t else t))"

definition p_bollinger :: "indicators \<Rightarrow> tally \<Rightarrow> tally" where
  "p_bollinger ind t =
     (case Bollinger ind of
        None \<Rightarrow> t
      | Some bb \<Rightarrow>
          add_total 1
            (case bb_percent bb of
               None \<Rightarrow> t
             | Some pc \<Rightarrow> if truthy (Some pc) then vote_between 0.8 0.2 pc t else t))"

definition p_mfi :: "indicators \<Rightarrow> tally \<Rightarrow> tally" where
  "p_mfi ind t =
     (case dict_get (MFI ind) of
        None \<Rightarrow> t
      | Some mfi \<Rightarrow> if truthy (Some mfi) then add_total 1 (vote_between 60 40 mfi t) else t)"

definition p_ma_step :: "dataframe \<Rightarrow> candle \<Rightarrow> nat \<Rightarrow> tally \<Rightarrow> tally" where
  "p_ma_step df row period t =
     (if has_EMA df period then
        (let ma_value = col_EMA row period
         in if \<not> isnan ma_value then
              (let diff_percent =
                     pf_mul (pf_div (pf_sub (Fin (Close row)) ma_value) ma_value) (Fin 100)
               in add_total 1 (vote_between 1 (- 1) diff_percent t))
            else t)
      else t)"

definition p_ma :: "dataframe \<Rightarrow> tally \<Rightarrow> tally" where
  "p_ma df t = fold (p_ma_step df (last (candles df))) [50, 200] t"

definition p_obv :: "dataframe \<Rightarrow> tally \<Rightarrow> tally" where
  "p_obv df t =
     (if has_OBV df then
        (let obv_current = col_OBV (last (candles df));
             obv_avg = series_mean (map col_OBV (slice_from (- 20) (candles df)));
             obv_diff = (if obv_avg \<noteq> Fin 0
                         then pf_mul (pf_div (pf_sub obv_current obv_avg) obv_avg) (Fin 100)
                         else Fin 0)
         in add_total 1 (vote_between 5 (- 5) obv_diff t))
      else t)"

definition p_adx :: "indicators \<Rightarrow> tally \<Rightarrow> tally" where
  "p_adx ind t =
     (case ADX ind of
        None \<Rightarrow> t
      | Some a \<Rightarrow>
          (case adx a of
             None \<Rightarrow> t
           | Some v \<Rightarrow>
               if truthy (Some v) \<and> pf_less v (Fin 20) then add_total 2 (add_neutral 2 t)
               else t))"

definition tally_of :: "indicators \<Rightarrow> dataframe \<Rightarrow> tally" where
  "tally_of ind df =
     p_adx ind (p_obv df (p_ma df (p_mfi ind (p_bollinger ind (p_stochastic ind
       (p_macd ind (p_rsi ind
          \<lparr>bullish_signals = 0, bearish_signals = 0, neutral_signals = 0,
           total_signals = 0\<rparr>)))))))"

text \<open>\<open>round(x, 2)\<close>: to the nearest hundredth, a tie to the even one.\<close>

definition round_half_even :: "rat \<Rightarrow> int" where
  "round_half_even x =
     (let f = \<lfloor>x\<rfloor>; d = x - of_int f
      in if d < 1 / 2 then f else if 1 / 2 < d then f + 1 else if even f then f else f + 1)"

definition round2 :: "rat \<Rightarrow> rat" where
  "round2 x = of_int (round_half_even (x * 100)) / 100"

text \<open>
  The percentages are Python floats, so the renormalisation raises when their sum is
  zero.
\<close>

definition percentages :: "tally \<Rightarrow> error + rat \<times> rat \<times> rat" where
  "percentages t =
     (if 0 < total_signals t then
        (let bullish_prob = of_nat (bullish_signals t) / of_nat (total_signals t) * 100;
             bearish_prob = of_nat (bearish_signals t) / of_nat (total_signals t) * 100;
             neutral_prob = of_nat (neutral_signals t) / of_nat (total_signals t) * 100;
             total_prob = bullish_prob + bearish_prob + neutral_prob
         in if total_prob \<noteq> 100 then
              (if total_prob = 0 then Inl ZeroDivisionError
               else Inr (bullish_prob / total_prob * 100, bearish_prob / total_prob * 100,
                         neutral_prob / total_prob * 100))
            else Inr (bullish_prob, bearish_prob, neutral_prob))
      else Inr (33.33, 33.33, 33.34))"

definition calculate_probabilities :: "technical_analysis \<Rightarrow> error + probabilities option" where
  "calculate_probabilities self =
     (case data self of
        None \<Rightarrow> Inr None
      | Some df \<Rightarrow>
          if candles df = [] \<or> no_indicators (indicators self) then Inr None
          else (let t = tally_of (indicators self) df
                in case percentages t of
                     Inl e \<Rightarrow> Inl e
                   | Inr (bullish_prob, bearish_prob, neutral_prob) \<Rightarrow>
                       Inr (Some \<lparr>bullish_signals = bullish_signals t,
                                  bearish_signals = bearish_signals t,
                                  neutral_signals = neutral_signals t,
                                  total_signals = total_signals t,
                                  bullish_probability = round2 bullish_prob,
                                  bearish_probability = round2 bearish_prob,
                                  neutral_probability = round2 neutral_prob\<rparr>)))"

subsection \<open>get\_market\_sentiment\<close>

datatype sentiment = Very_Bullish | Bullish | Neutral | Bearish | Very_Bearish

datatype main_reason =
    High_neutrality | Strong_upward | Positive_tendency | Balanced_market
  | Negative_tendency | Strong_downward

text \<open>
  The third component of the result is the text: the main reason, the reasoning of the
  trend strength and, when signals were counted, the counts of bullish, neutral and
  bearish signals. Without probabilities the signal counts are never assigned, and the
  test of the neutral share raises.
\<close>

definition classify :: "nat \<Rightarrow> nat \<Rightarrow> rat \<Rightarrow> sentiment \<times> main_reason" where
  "classify n_neutral n_total trend_strength =
     (if of_nat n_neutral > of_nat n_total * (0.6 :: rat) \<and> \<bar>trend_strength\<bar> < 15
        then (Neutral, High_neutrality)
      else if trend_strength \<ge> 25 then (Very_Bullish, Strong_upward)
      else if trend_strength \<ge> 10 then (Bullish, Positive_tendency)
      else if trend_strength \<ge> - 10 then (Neutral, Balanced_market)
      else if trend_strength \<ge> - 25 then (Bearish, Negative_tendency)
      else (Very_Bearish, Strong_downward))"

definition get_market_sentiment ::
  "technical_analysis \<Rightarrow>
     error + sentiment \<times> rat \<times> (main_reason \<times> reasoning \<times> (nat \<times> nat \<times> nat) option)" where
  "get_market_sentiment self =
     (case calculate_trend_strength self of
        Inl e \<Rightarrow> Inl e
      | Inr (trend_strength, reasoning) \<Rightarrow>
          (case calculate_probabilities self of
             Inl e \<Rightarrow> Inl e
           | Inr None \<Rightarrow> Inl UnboundLocalError
           | Inr (Some p) \<Rightarrow>
               (let signal_bias =
                      (of_nat (bullish_signals p) - of_nat (bearish_signals p))
                        / of_nat (total_signals p) * 20;
                    adjusted = (if 0 < total_signals p then trend_strength + signal_bias
                                else trend_strength);
                    signal_info =
                      (if 0 < total_signals p
                       then Some (bullish_signals p, neutral_signals p, bearish_signals p)
                       else None)
                in case classify (neutral_signals p) (total_signals p) adjusted of
                     (sentiment, main) \<Rightarrow>
                       Inr (sentiment, adjusted, (main, reasoning, signal_info)))))"

section \<open>Candlestick patterns (candlestick\_patterns.py)\<close>

text \<open>
  A detected pattern, as \<open>_add_pattern\<close> appends it; the description, a fixed text per
  pattern, is left out.
\<close>

record pattern =
  date :: nat
  pattern_name :: string
  signal :: string
  reliability :: string
  price :: rat
  index :: nat

definition body_height :: "candle list \<Rightarrow> nat \<Rightarrow> rat" where
  "body_height d idx = \<bar>Close (d ! idx) - Open (d ! idx)\<bar>"

definition upper_shadow :: "candle list \<Rightarrow> nat \<Rightarrow> rat" where
  "upper_shadow d idx = High (d ! idx) - max (Close (d ! idx)) (Open (d ! idx))"

definition lower_shadow :: "candle list \<Rightarrow> nat \<Rightarrow> rat" where
  "lower_shadow d idx = min (Close (d ! idx)) (Open (d ! idx)) - Low (d ! idx)"

definition high_low :: "candle list \<Rightarrow> nat \<Rightarrow> rat" where
  "high_low d idx = High (d ! idx) - Low (d ! idx)"

definition is_bullish_candle :: "candle list \<Rightarrow> nat \<Rightarrow> bool" where
  "is_bullish_candle d idx \<longleftrightarrow> Close (d ! idx) > Open (d ! idx)"

definition is_bearish_candle :: "candle list \<Rightarrow> nat \<Rightarrow> bool" where
  "is_bearish_candle d idx \<longleftrightarrow> Close (d ! idx) < Open (d ! idx)"

datatype trend = Unknown | Uptrend | Downtrend | Sideways

text \<open>\<open>_get_trend\<close> with its default lookback of 5, the only one used.\<close>

definition get_trend :: "candle list \<Rightarrow> nat \<Rightarrow> trend" where
  "get_trend d idx =
     (if idx < 5 then Unknown
      else (let start_price = Close (d ! (idx - 5)); end_price = Close (d ! (idx - 1))
            in if end_price > start_price * 1.02 then Uptrend
               else if end_price < start_price * 0.98 then Downtrend
               else Sideways))"

definition add_pattern ::
  "candle list \<Rightarrow> nat \<Rightarrow> string \<Rightarrow> string \<Rightarrow> string \<Rightarrow> pattern list \<Rightarrow> pattern list" where
  "add_pattern d idx name sig rel patterns =
     patterns @ [\<lparr>date = Date (d ! idx), pattern_name = name, signal = sig, reliability = rel,
                  price = Close (d ! idx), index = idx\<rparr>]"

text \<open>
  Every detector is the same loop: for each index from a first one to the end of the
  series, in ascending order, it tests the bars and appends at most one pattern. The test
  of a detector gives the name, the signal and the reliability of the pattern it adds.
\<close>

type_synonym hit = "string \<times> string \<times> string"

definition scan ::
  "nat \<Rightarrow> (candle list \<Rightarrow> nat \<Rightarrow> hit option) \<Rightarrow> candle list \<Rightarrow> pattern list \<Rightarrow> pattern list" where
  "scan first test d patterns =
     fold (\<lambda>i ps. case test d i of
                     None \<Rightarrow> ps
                   | Some (name, sig, rel) \<Rightarrow> add_pattern d i name sig rel ps)
          [first..<length d] patterns"

subsection \<open>Single candle patterns\<close>

definition doji_at :: "candle list \<Rightarrow> nat \<Rightarrow> hit option" where
  "doji_at d i =
     (if high_low d i > 0 \<and> body_height d i / high_low d i < 0.1 then
        Some (''Doji'',
              (case get_trend d i of
                 Uptrend \<Rightarrow> ''Bearish Reversal''
               | Downtrend \<Rightarrow> ''Bullish Reversal''
               | _ \<Rightarrow> ''Indecision''),
              ''Medium'')
      else None)"

definition hammer_at :: "candle list \<Rightarrow> nat \<Rightarrow> hit option" where
  "hammer_at d i =
     (if lower_shadow d i > body_height d i * 2 \<and> upper_shadow d i < body_height d i * 0.3
         \<and> get_trend d i = Downtrend
      then Some (''Hammer'', ''Bullish Reversal'', ''High'') else None)"

definition hanging_man_at :: "candle list \<Rightarrow> nat \<Rightarrow> hit option" where
  "hanging_man_at d i =
     (if lower_shadow d i > body_height d i * 2 \<and> upper_shadow d i < body_height d i * 0.3
         \<and> get_trend d i = Uptrend
      then Some (''Hanging Man'', ''Bearish Reversal'', ''Medium'') else None)"

definition shooting_star_at :: "candle list \<Rightarrow> nat \<Rightarrow> hit option" where
  "shooting_star_at d i =
     (if upper_shadow d i > body_height d i * 2 \<and> lower_shadow d i < body_height d i * 0.3
         \<and> get_trend d i = Uptrend
      then Some (''Shooting Star'', ''Bearish Reversal'', ''High'') else None)"

definition inverted_hammer_at :: "candle list \<Rightarrow> nat \<Rightarrow> hit option" where
  "inverted_hammer_at d i =
     (if upper_shadow d i > body_height d i * 2 \<and> lower_shadow d i < body_height d i * 0.3
         \<and> get_trend d i = Downtrend
      then Some (''Inverted Hammer'', ''Bullish Reversal'', ''Medium'') else None)"

definition spinning_top_at :: "candle list \<Rightarrow> nat \<Rightarrow> hit option" where
  "spinning_top_at d i =
     (if high_low d i > 0 \<and> body_height d i / high_low d i < 0.3
         \<and> upper_shadow d i > body_height d i \<and> lower_shadow d i > body_height d i
      then Some (''Spinning Top'', ''Neutral'', ''Low'') else None)"

definition marubozu_at :: "candle list \<Rightarrow> nat \<Rightarrow> hit option" where
  "marubozu_at d i =
     (if high_low d i > 0 \<and> body_height d i / high_low d i > 0.95 then
        (if is_bullish_candle d i then Some (''Bullish Marubozu'', ''Strong Bullish'', ''High'')
         else Some (''Bearish Marubozu'', ''Strong Bearish'', ''High''))
      else None)"

definition long_legged_doji_at :: "candle list \<Rightarrow> nat \<Rightarrow> hit option" where
  "long_legged_doji_at d i =
     (if high_low d i > 0 \<and> body_height d i / high_low d i < 0.05
         \<and> upper_shadow d i > body_height d i * 5 \<and> lower_shadow d i > body_height d i * 5
      then Some (''Long-Legged Doji'', ''High Indecision'', ''Medium'') else None)"

definition dragonfly_doji_at :: "candle list \<Rightarrow> nat \<Rightarrow> hit option" where
  "dragonfly_doji_at d i =
     (if high_low d i > 0 \<and> body_height d i / high_low d i < 0.05
         \<and> lower_shadow d i > high_low d i * 0.7 \<and> upper_shadow d i < high_low d i * 0.1 then
        (if get_trend d i = Downtrend then Some (''Dragonfly Doji'', ''Bullish Reversal'', ''High'')
         else Some (''Dragonfly Doji'', ''Support Found'', ''Medium''))
      else None)"

definition gravestone_doji_at :: "candle list \<Rightarrow> nat \<Rightarrow> hit option" where
  "gravestone_doji_at d i =
     (if high_low d i > 0 \<and> body_height d i / high_low d i < 0.05
         \<and> upper_shadow d i > high_low d i * 0.7 \<and> lower_shadow d i < high_low d i * 0.1 then
        (if get_trend d i = Uptrend then Some (''Gravestone Doji'', ''Bearish Reversal'', ''High'')
         else Some (''Gravestone Doji'', ''Resistance Found'', ''Medium''))
      else None)"

subsection \<open>Two candle patterns\<close>

definition engulfing_at :: "candle list \<Rightarrow> nat \<Rightarrow> hit option" where
  "engulfing_at d i =
     (if is_bearish_candle d (i - 1) \<and> is_bullish_candle d i
         \<and> Open (d ! i) < Close (d ! (i - 1)) \<and> Close (d ! i) > Open (d ! (i - 1))
         \<and> get_trend d i = Downtrend
      then Some (''Bullish Engulfing'', ''Bullish Reversal'', ''High'')
      else if is_bullish_candle d (i - 1) \<and> is_bearish_candle d i
         \<and> Open (d ! i) > Close (d ! (i - 1)) \<and> Close (d ! i) < Open (d ! (i - 1))
         \<and> get_trend d i = Uptrend
      then Some (''Bearish Engulfing'', ''Bearish Reversal'', ''High'')
      else None)"

definition harami_at :: "candle list \<Rightarrow> nat \<Rightarrow> hit option" where
  "harami_at d i =
     (if is_bearish_candle d (i - 1) \<and> is_bullish_candle d i
         \<and> Open (d ! i) > Close (d ! (i - 1)) \<and> Close (d ! i) < Open (d ! (i - 1))
         \<and> get_trend d i = Downtrend
      then Some (''Bullish Harami'', ''Bullish Reversal'', ''Medium'')
      else if is_bullish_candle d (i - 1) \<and> is_bearish_candle d i
         \<and> Open (d ! i) < Close (d ! (i - 1)) \<and> Close (d ! i) > Open (d ! (i - 1))
         \<and> get_trend d i = Uptrend
      then Some (''Bearish Harami'', ''Bearish Reversal'', ''Medium'')
      else None)"

definition piercing_line_at :: "candle list \<Rightarrow> nat \<Rightarrow> hit option" where
  "piercing_line_at d i =
     (if is_bearish_candle d (i - 1) \<and> is_bullish_candle d i
         \<and> Open (d ! i) < Low (d ! (i - 1))
         \<and> Close (d ! i) > (Open (d ! (i - 1)) + Close (d ! (i - 1))) / 2
         \<and> Close (d ! i) < Open (d ! (i - 1))
         \<and> get_trend d i = Downtrend
      then Some (''Piercing Line'', ''Bullish Reversal'', ''High'') else None)"

definition dark_cloud_cover_at :: "candle list \<Rightarrow> nat \<Rightarrow> hit option" where
  "dark_cloud_cover_at d i =
     (if is_bullish_candle d (i - 1) \<and> is_bearish_candle d i
         \<and> Open (d ! i) > High (d ! (i - 1))
         \<and> Close (d ! i) < (Open (d ! (i - 1)) + Close (d ! (i - 1))) / 2
         \<and> Close (d ! i) > Open (d ! (i - 1))
         \<and> get_trend d i = Uptrend
      then Some (''Dark Cloud Cover'', ''Bearish Reversal'', ''High'') else None)"

definition tweezer_at :: "candle list \<Rightarrow> nat \<Rightarrow> hit option" where
  "tweezer_at d i =
     (if \<bar>High (d ! i) - High (d ! (i - 1))\<bar> < High (d ! i) * 0.001 \<and> get_trend d i = Uptrend
      then Some (''Tweezer Top'', ''Bearish Reversal'', ''Medium'')
      else if \<bar>Low (d ! i) - Low (d ! (i - 1))\<bar> < Low (d ! i) * 0.001
         \<and> get_trend d i = Downtrend
      then Some (''Tweezer Bottom'', ''Bullish Reversal'', ''Medium'')
      else None)"

subsection \<open>Three candle patterns\<close>

definition morning_star_at :: "candle list \<Rightarrow> nat \<Rightarrow> hit option" where
  "morning_star_at d i =
     (if is_bearish_candle d (i - 2)
         \<and> body_height d (i - 1) < body_height d (i - 2) * 0.3
         \<and> is_bullish_candle d i
         \<and> Close (d ! i) > (Open (d ! (i - 2)) + Close (d ! (i - 2))) / 2
         \<and> get_trend d (i - 2) = Downtrend
      then Some (''Morning Star'', ''Bullish Reversal'', ''Very High'') else None)"

definition evening_star_at :: "candle list \<Rightarrow> nat \<Rightarrow> hit option" where
  "evening_star_at d i =
     (if is_bullish_candle d (i - 2)
         \<and> body_height d (i - 1) < body_height d (i - 2) * 0.3
         \<and> is_bearish_candle d i
         \<and> Close (d ! i) < (Open (d ! (i - 2)) + Close (d ! (i - 2))) / 2
         \<and> get_trend d (i - 2) = Uptrend
      then Some (''Evening Star'', ''Bearish Reversal'', ''Very High'') else None)"

definition three_white_soldiers_at :: "candle list \<Rightarrow> nat \<Rightarrow> hit option" where
  "three_white_soldiers_at d i =
     (if is_bullish_candle d (i - 2) \<and> is_bullish_candle d (i - 1) \<and> is_bullish_candle d i
         \<and> Close (d ! (i - 1)) > Close (d ! (i - 2)) \<and> Close (d ! i) > Close (d ! (i - 1))
         \<and> Open (d ! (i - 1)) > Open (d ! (i - 2)) \<and> Open (d ! i) > Open (d ! (i - 1))
      then Some (''Three White Soldiers'', ''Strong Bullish'', ''Very High'') else None)"

definition three_black_crows_at :: "candle list \<Rightarrow> nat \<Rightarrow> hit option" where
  "three_black_crows_at d i =
     (if is_bearish_candle d (i - 2) \<and> is_bearish_candle d (i - 1) \<and> is_bearish_candle d i
         \<and> Close (d ! (i - 1)) < Close (d ! (i - 2)) \<and> Close (d ! i) < Close (d ! (i - 1))
         \<and> Open (d ! (i - 1)) < Open (d ! (i - 2)) \<and> Open (d ! i) < Open (d ! (i - 1))
      then Some (''Three Black Crows'', ''Strong Bearish'', ''Very High'') else None)"

definition three_inside_at :: "candle list \<Rightarrow> nat \<Rightarrow> hit option" where
  "three_inside_at d i =
     (if is_bearish_candle d (i - 2) \<and> is_bullish_candle d (i - 1)
         \<and> Close (d ! (i - 1)) < Open (d ! (i - 2)) \<and> Open (d ! (i - 1)) > Close (d ! (i - 2))
         \<and> is_bullish_candle d i \<and> Close (d ! i) > Close (d ! (i - 1))
      then Some (''Three Inside Up'', ''Bullish Reversal'', ''High'')
      else if is_bullish_candle d (i - 2) \<and> is_bearish_candle d (i - 1)
         \<and> Close (d ! (i - 1)) > Open (d ! (i - 2)) \<and> Open (d ! (i - 1)) < Close (d ! (i - 2))
         \<and> is_bearish_candle d i \<and> Close (d ! i) < Close (d ! (i - 1))
      then Some (''Three Inside Down'', ''Bearish Reversal'', ''High'')
      else None)"

definition three_outside_at :: "candle list \<Rightarrow> nat \<Rightarrow> hit option" where
  "three_outside_at d i =
     (if is_bearish_candle d (i - 2) \<and> is_bullish_candle d (i - 1)
         \<and> Open (d ! (i - 1)) < Close (d ! (i - 2)) \<and> Close (d ! (i - 1)) > Open (d ! (i - 2))
         \<and> is_bullish_candle d i \<and> Close (d ! i) > Close (d ! (i - 1))
      then Some (''Three Outside Up'', ''Bullish Reversal'', ''High'')
      else if is_bullish_candle d (i - 2) \<and> is_bearish_candle d (i - 1)
         \<and> Open (d ! (i - 1)) > Close (d ! (i - 2)) \<and> Close (d ! (i - 1)) < Open (d ! (i - 2))
         \<and> is_bearish_candle d i \<and> Close (d ! i) < Close (d ! (i - 1))
      then Some (''Three Outside Down'', ''Bearish Reversal'', ''High'')
      else None)"

subsection \<open>Multi-candle patterns\<close>

text \<open>The closes of the three bars between the first and the last one lie strictly inside
  the range of the first bar.\<close>

definition inside_first_bar :: "candle list \<Rightarrow> nat \<Rightarrow> bool" where
  "inside_first_bar d i =
     list_all (\<lambda>j. Close (d ! j) < High (d ! (i - 4)) \<and> Close (d ! j) > Low (d ! (i - 4)))
       [i - 3..<i]"

definition three_methods_at :: "candle list \<Rightarrow> nat \<Rightarrow> hit option" where
  "three_methods_at d i =
     (if is_bullish_candle d (i - 4)
         \<and> body_height d (i - 4) > body_height d (i - 3)
         \<and> body_height d (i - 4) > body_height d (i - 2)
         \<and> body_height d (i - 4) > body_height d (i - 1)
         \<and> inside_first_bar d i
         \<and> is_bullish_candle d i \<and> Close (d ! i) > Close (d ! (i - 4))
      then Some (''Rising Three Methods'', ''Bullish Continuation'', ''High'')
      else if is_bearish_candle d (i - 4)
         \<and> body_height d (i - 4) > body_height d (i - 3)
         \<and> body_height d (i - 4) > body_height d (i - 2)
         \<and> body_height d (i - 4) > body_height d (i - 1)
         \<and> inside_first_bar d i
         \<and> is_bearish_candle d i \<and> Close (d ! i) < Close (d ! (i - 4))
      then Some (''Falling Three Methods'', ''Bearish Continuation'', ''High'')
      else None)"

subsection \<open>The detectors and detect\_all\_patterns\<close>

text \<open>Each \<open>_detect_*\<close> method with the first index of its loop.\<close>

definition detect_doji :: "candle list \<Rightarrow> pattern list \<Rightarrow> pattern list" where
  "detect_doji = scan 0 doji_at"

definition detect_hammer :: "candle list \<Rightarrow> pattern list \<Rightarrow> pattern list" where
  "detect_hammer = scan 1 hammer_at"

definition detect_hanging_man :: "candle list \<Rightarrow> pattern list \<Rightarrow> pattern list" where
  "detect_hanging_man = scan 1 hanging_man_at"

definition detect_shooting_star :: "candle list \<Rightarrow> pattern list \<Rightarrow> pattern list" where
  "detect_shooting_star = scan 1 shooting_star_at"

definition detect_inverted_hammer :: "candle list \<Rightarrow> pattern list \<Rightarrow> pattern list" where
  "detect_inverted_hammer = scan 1 inverted_hammer_at"

definition detect_spinning_top :: "candle list \<Rightarrow> pattern list \<Rightarrow> pattern list" where
  "detect_spinning_top = scan 0 spinning_top_at"

definition detect_marubozu :: "candle list \<Rightarrow> pattern list \<Rightarrow> pattern list" where
  "detect_marubozu = scan 0 marubozu_at"

definition detect_long_legged_doji :: "candle list \<Rightarrow> pattern list \<Rightarrow> pattern list" where
  "detect_long_legged_doji = scan 0 long_legged_doji_at"

definition detect_dragonfly_doji :: "candle list \<Rightarrow> pattern list \<Rightarrow> pattern list" where
  "detect_dragonfly_doji = scan 0 dragonfly_doji_at"

definition detect_gravestone_doji :: "candle list \<Rightarrow> pattern list \<Rightarrow> pattern list" where
  "detect_gravestone_doji = scan 0 gravestone_doji_at"

definition detect_engulfing :: "candle list \<Rightarrow> pattern list \<Rightarrow> pattern list" where
  "detect_engulfing = scan 1 engulfing_at"

definition detect_harami :: "candle list \<Rightarrow> pattern list \<Rightarrow> pattern list" where
  "detect_harami = scan 1 harami_at"

definition detect_piercing_line :: "candle list \<Rightarrow> pattern list \<Rightarrow> pattern list" where
  "detect_piercing_line = scan 1 piercing_line_at"

definition detect_dark_cloud_cover :: "candle list \<Rightarrow> pattern list \<Rightarrow> pattern list" where
  "detect_dark_cloud_cover = scan 1 dark_cloud_cover_at"

definition detect_tweezer_tops_bottoms :: "candle list \<Rightarrow> pattern list \<Rightarrow> pattern list" where
  "detect_tweezer_tops_bottoms = scan 1 tweezer_at"

definition detect_morning_star :: "candle list \<Rightarrow> pattern list \<Rightarrow> pattern list" where
  "detect_morning_star = scan 2 morning_star_at"

definition detect_evening_star :: "candle list \<Rightarrow> pattern list \<Rightarrow> pattern list" where
  "detect_evening_star = scan 2 evening_star_at"

definition detect_three_white_soldiers :: "candle list \<Rightarrow> pattern list \<Rightarrow> pattern list" where
  "detect_three_white_soldiers = scan 2 three_white_soldiers_at"

definition detect_three_black_crows :: "candle list \<Rightarrow> pattern list \<Rightarrow> pattern list" where
  "detect_three_black_crows = scan 2 three_black_crows_at"

definition detect_three_inside_up_down :: "candle list \<Rightarrow> pattern list \<Rightarrow> pattern list" where
  "detect_three_inside_up_down = scan 2 three_inside_at"

definition detect_three_outside_up_down :: "candle list \<Rightarrow> pattern list \<Rightarrow> pattern list" where
  "detect_three_outside_up_down = scan 2 three_outside_at"

definition detect_rising_falling_three_methods ::
  "candle list \<Rightarrow> pattern list \<Rightarrow> pattern list" where
  "detect_rising_falling_three_methods = scan 4 three_methods_at"

text \<open>The detectors in the order in which \<open>detect_all_patterns\<close> calls them.\<close>

definition detectors :: "(candle list \<Rightarrow> pattern list \<Rightarrow> pattern list) list" where
  "detectors =
     [detect_doji, detect_hammer, detect_hanging_man, detect_shooting_star,
      detect_inverted_hammer, detect_spinning_top, detect_marubozu, detect_long_legged_doji,
      detect_dragonfly_doji, detect_gravestone_doji,
      detect_engulfing, detect_harami, detect_piercing_line, detect_dark_cloud_cover,
      detect_tweezer_tops_bottoms,
      detect_morning_star, detect_evening_star, detect_three_white_soldiers,
      detect_three_black_crows, detect_three_inside_up_down, detect_three_outside_up_down,
      detect_rising_falling_three_methods]"

text \<open>\<open>self.patterns = []\<close>, then every detector in turn on the growing list.\<close>

definition detect_all_patterns :: "candle list \<Rightarrow> pattern list" where
  "detect_all_patterns d = fold (\<lambda>detect patterns. detect d patterns) detectors []"

subsection \<open>get\_pattern\_statistics\<close>

text \<open>Python's \<open>s in t\<close> on strings.\<close>

fun tails :: "'a list \<Rightarrow> 'a list list" where
  "tails [] = [[]]"
| "tails (x # xs) = (x # xs) # tails xs"

definition contains :: "string \<Rightarrow> string \<Rightarrow> bool" where
  "contains t s = list_ex (\<lambda>u. take (length s) u = s) (tails t)"

text \<open>The counting loop over the pattern names: a dict in the order of first insertion.\<close>

fun count_type :: "string \<Rightarrow> (string \<times> nat) list \<Rightarrow> (string \<times> nat) list" where
  "count_type name [] = [(name, 1)]"
| "count_type name ((k, n) # rest) =
     (if k = name then (k, n + 1) # rest else (k, n) # count_type name rest)"

record pattern_statistics =
  total_patterns :: nat
  bullish_patterns :: nat
  bearish_patterns :: nat
  neutral_patterns :: nat
  high_reliability :: nat
  recent_patterns :: "pattern list"
  pattern_types :: "(string \<times> nat) list"

text \<open>The result is \<open>None\<close> for the empty dict that is returned without patterns.\<close>

definition get_pattern_statistics :: "pattern list \<Rightarrow> pattern_statistics option" where
  "get_pattern_statistics patterns =
     (if patterns = [] then None
      else Some
        \<lparr>total_patterns = length patterns,
         bullish_patterns = length (filter (\<lambda>p. contains (signal p) ''Bullish'') patterns),
         bearish_patterns = length (filter (\<lambda>p. contains (signal p) ''Bearish'') patterns),
         neutral_patterns =
           length (filter (\<lambda>p. contains (signal p) ''Neutral''
                              \<or> contains (signal p) ''Continuation'') patterns),
         high_reliability =
           length (filter (\<lambda>p. reliability p \<in> set [''High'', ''Very High'']) patterns),
         recent_patterns = slice_from (- 5) patterns,
         pattern_types = fold (\<lambda>p types. count_type (pattern_name p) types) patterns []\<rparr>)"

section \<open>The primary pattern of an index (main.py, advanced\_charts.py)\<close>

text \<open>
  Both charts group the patterns by index, keeping the order of the list, sort each group
  by reliability and mark its first pattern. \<open>list.sort\<close> is stable, also with
  \<open>reverse=True\<close>: patterns of equal rank keep their order.
\<close>

definition reliability_order :: "string \<Rightarrow> nat option" where
  "reliability_order = map_of [(''Very High'', 4), (''High'', 3), (''Medium'', 2), (''Low'', 1)]"

definition reliability_rank :: "pattern \<Rightarrow> nat" where
  "reliability_rank p = (case reliability_order (reliability p) of None \<Rightarrow> 0 | Some n \<Rightarrow> n)"

definition pattern_groups :: "nat \<Rightarrow> pattern list \<Rightarrow> nat \<Rightarrow> pattern list" where
  "pattern_groups n patterns idx =
     (if idx < n then filter (\<lambda>p. index p = idx) patterns else [])"

definition sort_by_reliability :: "pattern list \<Rightarrow> pattern list" where
  "sort_by_reliability ps = sort_key (\<lambda>p. - int (reliability_rank p)) ps"

definition main_pattern :: "nat \<Rightarrow> pattern list \<Rightarrow> nat \<Rightarrow> pattern option" where
  "main_pattern n patterns idx =
     (case sort_by_reliability (pattern_groups n patterns idx) of
        [] \<Rightarrow> None
      | p # _ \<Rightarrow> Some p)"

text \<open>
  The loop of the charts: the indices that have a pattern, sorted, the last \<open>limit\<close> of
  them (30 in main.py, 20 in advanced\_charts.py), each with its main pattern.
\<close>

definition sorted_indices :: "int \<Rightarrow> nat \<Rightarrow> pattern list \<Rightarrow> nat list" where
  "sorted_indices limit n patterns =
     slice_from (- limit) (sort (remdups (map index (filter (\<lambda>p. index p < n) patterns))))"

definition marked_patterns :: "int \<Rightarrow> nat \<Rightarrow> pattern list \<Rightarrow> (nat \<times> pattern option) list" where
  "marked_patterns limit n patterns =
     map (\<lambda>idx. (idx, main_pattern n patterns idx)) (sorted_indices limit n patterns)"

section \<open>Invariants of the accumulators\<close>

text \<open>The score never exceeds the weight in size, and the votes never exceed the count
  of signals.\<close>

definition bounded :: "trend_acc \<Rightarrow> bool" where
  "bounded acc \<longleftrightarrow> \<bar>trend_score acc\<bar> \<le> total_weight acc"

definition consistent :: "tally \<Rightarrow> bool" where
  "consistent t \<longleftrightarrow>
     bullish_signals t + bearish_signals t + neutral_signals t \<le> total_signals t"

section \<open>Example inputs\<close>

text \<open>Concrete series and analysis objects, at which the theorems below are instantiated.\<close>

definition bar :: "rat \<Rightarrow> rat \<Rightarrow> rat \<Rightarrow> rat \<Rightarrow> candle" where
  "bar op hi lo cl = \<lparr>Date = 0, Open = op, High = hi, Low = lo, Close = cl, Volume = 0,
     col_EMA = (\<lambda>_. NaN), col_OBV = NaN\<rparr>"

definition empty_indicators :: indicators where
  "empty_indicators = \<lparr>moving_averages = None, RSI = None, MACD = None, Bollinger = None,
     Stochastic = None, ADX = None, ATR = None, CCI = None, OBV = None, VWAP = None,
     Williams_R = None, MFI = None, CMF = None, ROC = None, Pivots = None\<rparr>"

definition frame_of :: "candle list \<Rightarrow> dataframe" where
  "frame_of cs = \<lparr>candles = cs, has_EMA = (\<lambda>_. False), has_OBV = False\<rparr>"

definition analysis_of :: "candle list \<Rightarrow> technical_analysis" where
  "analysis_of cs = \<lparr>data = Some (frame_of cs), indicators = empty_indicators,
     fibonacci_levels = None, support_resistance = None\<rparr>"

definition zigzag :: "candle list" where
  "zigzag = map (\<lambda>x. bar x (x + 1) (x - 1) x) [5, 3, 4, 2, 6, 1, 7, 4]"


definition rsi_analysis :: "rat \<Rightarrow> technical_analysis" where
  "rsi_analysis r =
     (analysis_of zigzag)\<lparr>indicators := empty_indicators\<lparr>RSI := Some (Some (Fin r))\<rparr>\<rparr>"

definition flat_macd_analysis :: technical_analysis where
  "flat_macd_analysis =
     (analysis_of zigzag)\<lparr>indicators := empty_indicators\<lparr>MACD :=
        Some \<lparr>macd_line = Some (Fin 0), macd_signal = Some (Fin 0), histogram = Some (Fin 0)\<rparr>\<rparr>\<rparr>"

text \<open>Six equal bars without shadows, then a bar with a small body.\<close>

definition marubozu_then_doji :: "candle list" where
  "marubozu_then_doji = replicate 6 (bar 10 11 10 11) @ [bar 10 10.6 10 10.05]"

definition example_pattern :: "string \<Rightarrow> string \<Rightarrow> nat \<Rightarrow> pattern" where
  "example_pattern name rel idx = \<lparr>date = 0, pattern_name = name, signal = ''Bullish Reversal'',
     reliability = rel, price = 0, index = idx\<rparr>"

section \<open>Theorems\<close>

lemmas example_defs = rsi_analysis_def flat_macd_analysis_def analysis_of_def frame_of_def
  empty_indicators_def zigzag_def bar_def no_indicators_def

lemmas trend_defs = calculate_trend_strength_def trend_totals_def rsi_block_def macd_block_def
  adx_block_def ma_block_def ma_step_def bb_block_def obv_block_def contribute_def

lemmas prob_defs = calculate_probabilities_def tally_of_def p_rsi_def p_macd_def
  p_stochastic_def p_bollinger_def p_mfi_def p_ma_def p_ma_step_def p_obv_def p_adx_def
  vote_between_def add_bullish_def add_bearish_def add_neutral_def add_total_def
  percentages_def

lemma isfinite_iff: "isfinite x \<longleftrightarrow> \<not> isnan x \<and> \<not> isinf x"
  by (cases x) simp_all

text \<open>
  What the scrubbing does achieve: a numpy scalar that is NaN or infinite becomes
  \<open>None\<close>, and a frame loses every row with such a value.
\<close>

lemma prepare_numpy_scalar_finite:
  "all_finite (prepare_data_for_json (NpFloating x))"
  "all_finite (prepare_data_for_json (NpFloat64 x))"
  "all_finite (prepare_data_for_json (NpInteger n))"
  by (simp_all add: isfinite_iff)

lemma prepare_dataframe_finite: "all_finite (prepare_data_for_json (DataFrame rs))"
  by (induction rs) (simp_all add: row_record_def row_complete_def list_all_iff)

text \<open>
  Claim C9. Every numeric value of the prepared snapshot should be finite. A native
  Python \<open>float\<close> that is infinite is no numpy scalar and \<open>pd.isna\<close> does not hold of
  it, so the last branch returns it unchanged: the dict \<open>{'x': float('inf')}\<close> comes
  back with its infinity.
\<close>

theorem C9_python_inf_not_scrubbed:
  "prepare_data_for_json (Dict [(''x'', PyFloat PInf)]) = Dict [(''x'', PyFloat PInf)]
   \<and> \<not> all_finite (prepare_data_for_json (Dict [(''x'', PyFloat PInf)]))"
  by simp

subsection \<open>Levels\<close>



lemma set_slice_from: "set (slice_from k xs) \<subseteq> set xs"
  by (simp add: slice_from_def set_drop_subset)

lemma set_slice_to: "set (slice_to k xs) \<subseteq> set xs"
  by (simp add: slice_to_def set_take_subset)

lemma in_slice_from: "x \<in> set (slice_from k xs) \<Longrightarrow> x \<in> set xs"
  using set_slice_from by fastforce

lemma in_slice_to: "x \<in> set (slice_to k xs) \<Longrightarrow> x \<in> set xs"
  using set_slice_to by fastforce

lemma support_below:
  assumes "s \<in> set (support (support_resistance_of w k cs))"
  shows "s < Close (last cs)"
proof -
  let ?kept = "filter (\<lambda>level. level < Close (last cs)) (unique (local_extrema min w (map Low cs)))"
  have "s \<in> set ?kept"
  proof (cases "int (length ?kept) > k")
    case True
    with assms have "s \<in> set (slice_from (- k) (sort ?kept))"
      by (simp add: support_resistance_of_def Let_def)
    then have "s \<in> set (sort ?kept)" by (rule in_slice_from)
    then show ?thesis by simp
  next
    case False
    with assms show ?thesis by (simp add: support_resistance_of_def Let_def)
  qed
  then show ?thesis by simp
qed

lemma resistance_above:
  assumes "x \<in> set (resistance (support_resistance_of w k cs))"
  shows "Close (last cs) < x"
proof -
  let ?kept = "filter (\<lambda>level. level > Close (last cs)) (unique (local_extrema max w (map High cs)))"
  have "x \<in> set ?kept"
  proof (cases "int (length ?kept) > k")
    case True
    with assms have "x \<in> set (slice_to k (sort ?kept))"
      by (simp add: support_resistance_of_def Let_def)
    then have "x \<in> set (sort ?kept)" by (rule in_slice_to)
    then show ?thesis by simp
  next
    case False
    with assms show ?thesis by (simp add: support_resistance_of_def Let_def)
  qed
  then show ?thesis by simp
qed

lemma price_of: "current_price (support_resistance_of w k cs) = Close (last cs)"
  by (simp add: support_resistance_of_def Let_def)

text \<open>
  Claim C1. For every non-empty series, \<open>identify_support_resistance\<close> returns a result
  whose current price is the last close, whose support levels all lie strictly below that
  price and whose resistance levels all lie strictly above it, whatever the window and the
  number of levels asked for.
\<close>

theorem C1_levels_on_their_side:
  assumes "data self = Some df" and "candles df \<noteq> []"
  shows "\<exists>r self'. identify_support_resistance window num_levels self = (Some r, self')
          \<and> current_price r = Close (last (candles df))
          \<and> (\<forall>s \<in> set (support r). s < current_price r)
          \<and> (\<forall>x \<in> set (resistance r). current_price r < x)"
  using assms
  by (auto simp: identify_support_resistance_def Let_def price_of
           dest: support_below resistance_above)

text \<open>The theorem at the eight-bar zigzag, with a window of 3 and one level a side.\<close>

theorem C1_witness:
  "\<exists>r self'. identify_support_resistance 3 1 (analysis_of zigzag) = (Some r, self')
          \<and> current_price r = Close (last zigzag)
          \<and> list_all (\<lambda>s. s < current_price r) (support r)
          \<and> list_all (\<lambda>x. current_price r < x) (resistance r)"
  using C1_levels_on_their_side [of "analysis_of zigzag" "frame_of zigzag" 3 1]
  by (simp add: analysis_of_def frame_of_def zigzag_def list_all_iff)










text \<open>
  Claim C8. When the series is absent or has no row, \<open>calculate_all_indicators\<close> (for any
  indicator pipeline), \<open>calculate_fibonacci_levels\<close> and \<open>identify_support_resistance\<close>
  each return \<open>None\<close>, raise nothing and leave the object as it was.
\<close>

theorem C8_empty_series_no_result:
  assumes "data self = None \<or> (\<exists>df. data self = Some df \<and> candles df = [])"
  shows "calculate_all_indicators pipeline include_vwap self = Inr (None, self)
       \<and> calculate_fibonacci_levels self = (None, self)
       \<and> identify_support_resistance window num_levels self = (None, self)"
  using assms
  by (auto simp: calculate_all_indicators_def calculate_fibonacci_levels_def
      identify_support_resistance_def)

text \<open>The theorem at a frame without rows.\<close>

theorem C8_witness:
  "calculate_all_indicators (\<lambda>v df ind. Inl LibraryError) False (analysis_of [])
       = Inr (None, analysis_of [])
   \<and> calculate_fibonacci_levels (analysis_of []) = (None, analysis_of [])
   \<and> identify_support_resistance 20 5 (analysis_of []) = (None, analysis_of [])"
  using C8_empty_series_no_result [of "analysis_of []" "\<lambda>v df ind. Inl LibraryError" False 20 5]
  by (simp add: analysis_of_def frame_of_def)

subsection \<open>Trend strength\<close>

lemma bounded_contribute:
  "bounded acc \<Longrightarrow> \<bar>s\<bar> \<le> w \<Longrightarrow> bounded (contribute s w rs acc)"
  by (simp add: bounded_def contribute_def)

lemma bounded_rsi: "bounded acc \<Longrightarrow> bounded (rsi_block ind acc)"
  by (auto simp: rsi_block_def intro!: bounded_contribute split: option.splits)

lemma bounded_macd: "bounded acc \<Longrightarrow> bounded (macd_block ind acc)"
  by (auto simp: macd_block_def intro!: bounded_contribute split: option.splits)

lemma bounded_adx: "bounded acc \<Longrightarrow> bounded (adx_block ind acc)"
  by (auto simp: adx_block_def intro!: bounded_contribute split: option.splits)

lemma ma_step_bounded:
  assumes "ma_step df row p st = st'" and "\<bar>fst st\<bar> \<le> fst (snd st)"
  shows "\<bar>fst st'\<bar> \<le> fst (snd st')"
  using assms by (cases st) (auto simp: ma_step_def Let_def split: if_splits)

lemma ma_fold_bounded:
  "\<bar>fst st\<bar> \<le> fst (snd st) \<Longrightarrow> \<bar>fst (fold (ma_step df row) ps st)\<bar> \<le> fst (snd (fold (ma_step df row) ps st))"
proof (induction ps arbitrary: st)
  case Nil
  then show ?case by simp
next
  case (Cons p ps)
  have "\<bar>fst (ma_step df row p st)\<bar> \<le> fst (snd (ma_step df row p st))"
    using Cons.prems ma_step_bounded by blast
  then show ?case using Cons.IH by simp
qed

lemma bounded_ma: "bounded acc \<Longrightarrow> bounded (ma_block d acc)"
proof -
  assume b: "bounded acc"
  show ?thesis
  proof (cases d)
    case None
    then show ?thesis using b by (simp add: ma_block_def)
  next
    case (Some df)
    obtain sc w ab be where f: "fold (ma_step df (last (candles df))) [9, 21, 50, 200] (0, 0, 0, 0) = (sc, w, ab, be)"
      by (metis prod_cases4)
    have "\<bar>fst (fold (ma_step df (last (candles df))) [9, 21, 50, 200] (0, 0, 0, 0))\<bar>
        \<le> fst (snd (fold (ma_step df (last (candles df))) [9, 21, 50, 200] (0, 0, 0, 0)))"
      by (rule ma_fold_bounded) simp
    then have "\<bar>sc\<bar> \<le> w" unfolding f by simp
    then show ?thesis using b Some f
      by (auto simp: ma_block_def intro!: bounded_contribute simp del: fold_simps)
  qed
qed

lemma bounded_bb: "bounded acc \<Longrightarrow> bounded (bb_block ind acc)"
  by (auto simp: bb_block_def intro!: bounded_contribute split: option.splits)

lemma bounded_obv: "bounded acc \<Longrightarrow> obv_block ind d acc = Inr acc' \<Longrightarrow> bounded acc'"
  by (auto simp: obv_block_def Let_def intro!: bounded_contribute split: option.splits if_splits)

lemma bounded_totals:
  assumes "trend_totals self = Inr acc"
  shows "bounded acc"
proof -
  let ?ind = "indicators self"
  have "bounded \<lparr>trend_score = 0, total_weight = 0, reasons = []\<rparr>"
    by (simp add: bounded_def)
  then have "bounded (rsi_block ?ind \<lparr>trend_score = 0, total_weight = 0, reasons = []\<rparr>)"
    by (rule bounded_rsi)
  then have "bounded (macd_block ?ind (rsi_block ?ind \<lparr>trend_score = 0, total_weight = 0, reasons = []\<rparr>))"
    by (rule bounded_macd)
  then have "bounded (adx_block ?ind (macd_block ?ind (rsi_block ?ind \<lparr>trend_score = 0, total_weight = 0, reasons = []\<rparr>)))"
    by (rule bounded_adx)
  then have "bounded (ma_block (data self) (adx_block ?ind (macd_block ?ind (rsi_block ?ind \<lparr>trend_score = 0, total_weight = 0, reasons = []\<rparr>))))"
    by (rule bounded_ma)
  then have "bounded (bb_block ?ind (ma_block (data self) (adx_block ?ind (macd_block ?ind (rsi_block ?ind \<lparr>trend_score = 0, total_weight = 0, reasons = []\<rparr>)))))"
    by (rule bounded_bb)
  then show ?thesis
    using assms unfolding trend_totals_def by (rule bounded_obv)
qed

lemma totals_weight_nonneg: "trend_totals self = Inr acc \<Longrightarrow> 0 \<le> total_weight acc"
  using bounded_totals [of self acc] by (simp add: bounded_def)

lemma ratio_bounded:
  fixes s w :: rat
  assumes "\<bar>s\<bar> \<le> w" and "0 < w"
  shows "\<bar>s / w * 50\<bar> \<le> 50"
proof -
  have "\<bar>s / w\<bar> = \<bar>s\<bar> / w" using assms(2) by simp
  also have "\<dots> \<le> 1" using assms by simp
  finally have "\<bar>s / w\<bar> * 50 \<le> 1 * 50" by (intro mult_right_mono) simp_all
  then show ?thesis by (simp add: abs_mult)
qed

lemma trend_strength_range:
  assumes "calculate_trend_strength self = Inr (score, why)"
  shows "\<bar>score\<bar> \<le> 50"
proof (cases "no_indicators (indicators self)")
  case True
  with assms show ?thesis by (simp add: calculate_trend_strength_def)
next
  case False
  with assms obtain acc where acc: "trend_totals self = Inr acc"
    by (auto simp: calculate_trend_strength_def split: sum.splits)
  show ?thesis
  proof (cases "0 < total_weight acc")
    case True
    have "\<bar>trend_score acc / total_weight acc * 50\<bar> \<le> 50"
      using bounded_totals [OF acc] True by (intro ratio_bounded) (simp_all add: bounded_def)
    moreover have "score = min 100 (max (- 100) (trend_score acc / total_weight acc * 50))"
      using assms False acc True by (simp add: calculate_trend_strength_def Let_def)
    ultimately show ?thesis by (simp add: min_def max_def abs_if split: if_splits)
  next
    case F: False
    with assms False acc show ?thesis by (simp add: calculate_trend_strength_def Let_def)
  qed
qed

text \<open>
  Claim C5. Without any indicator the result is 0. Otherwise, when the blocks accumulate
  a score and a total weight, the weight is never negative; when it is positive the
  result is \<open>score / weight * 50\<close> clamped to \<open>[-100, 100]\<close>, and when it is zero the
  result is 0.
\<close>

theorem C5_trend_strength_normalised:
  "(no_indicators (indicators self) \<longrightarrow> calculate_trend_strength self = Inr (0, No_indicators))
   \<and> (\<forall>acc. \<not> no_indicators (indicators self) \<and> trend_totals self = Inr acc \<longrightarrow>
         0 \<le> total_weight acc
         \<and> (0 < total_weight acc \<longrightarrow>
              (\<exists>why. calculate_trend_strength self =
                 Inr (min 100 (max (- 100) (trend_score acc / total_weight acc * 50)), why)))
         \<and> (total_weight acc = 0 \<longrightarrow> (\<exists>why. calculate_trend_strength self = Inr (0, why))))"
  by (auto simp: calculate_trend_strength_def Let_def dest: totals_weight_nonneg)

lemma trend_totals_rsi_75: "trend_totals (rsi_analysis 75) = Inr \<lparr>trend_score = 2, total_weight = 2, reasons = [RSI_overbought (Fin 75)]\<rparr>"
  by (simp add: example_defs trend_defs)

text \<open>The theorem at an object whose only indicator is an RSI of 75.\<close>

theorem C5_witness:
  "\<not> no_indicators (indicators (rsi_analysis 75))
   \<and> (\<exists>acc. trend_totals (rsi_analysis 75) = Inr acc \<and> trend_score acc = 2 \<and> total_weight acc = 2)
   \<and> (\<exists>why. calculate_trend_strength (rsi_analysis 75) = Inr (50, why))"
  using C5_trend_strength_normalised [of "rsi_analysis 75"] trend_totals_rsi_75
  by (auto simp: example_defs)

text \<open>The RSI block on a number other than zero: the four bands of the claim.\<close>

lemma rsi_block_nonzero:
  assumes "RSI ind = Some (Some (Fin r))" and "r \<noteq> 0"
  shows "rsi_block ind acc =
     (if 70 < r then contribute 2 2 [RSI_overbought (Fin r)] acc
      else if 50 < r then contribute 1 1 [RSI_bullish (Fin r)] acc
      else if r < 30 then contribute (- 2) 2 [RSI_oversold (Fin r)] acc
      else contribute (- 1) 1 [RSI_bearish (Fin r)] acc)"
  using assms by (simp add: rsi_block_def)

text \<open>
  Claim C6. An RSI below 30 should contribute \<open>-2\<close> with weight 2. An RSI of exactly 0
  (a series that only fell) fails the truth test that guards the block and contributes
  nothing: the result is 0 with no reason, where an RSI of 1 gives \<open>-50\<close>.
\<close>

theorem C6_rsi_zero_skipped:
  "calculate_trend_strength (rsi_analysis 0) = Inr (0, No_clear_signals)
   \<and> calculate_trend_strength (rsi_analysis 1) = Inr (- 50, Reasons [RSI_oversold (Fin 1)])"
  by (simp add: example_defs trend_defs)

subsection \<open>Probabilities\<close>



lemma consistent_vote: "consistent t \<Longrightarrow> consistent (add_total (Suc 0) (vote_between hi lo x t))"
  by (simp add: consistent_def add_total_def vote_between_def add_bullish_def add_bearish_def add_neutral_def)

lemma consistent_total: "consistent t \<Longrightarrow> consistent (add_total n t)"
  by (simp add: consistent_def add_total_def)

lemma consistent_rsi: "consistent t \<Longrightarrow> consistent (p_rsi ind t)"
  by (auto simp: p_rsi_def consistent_vote split: option.splits)

lemma consistent_mfi: "consistent t \<Longrightarrow> consistent (p_mfi ind t)"
  by (auto simp: p_mfi_def consistent_vote split: option.splits)

lemma consistent_macd: "consistent t \<Longrightarrow> consistent (p_macd ind t)"
  by (auto simp: p_macd_def consistent_def add_total_def add_bullish_def add_bearish_def add_neutral_def split: option.splits)

lemma consistent_stochastic: "consistent t \<Longrightarrow> consistent (p_stochastic ind t)"
  by (auto simp: p_stochastic_def consistent_vote consistent_total split: option.splits)

lemma consistent_bollinger: "consistent t \<Longrightarrow> consistent (p_bollinger ind t)"
  by (auto simp: p_bollinger_def consistent_vote consistent_total split: option.splits)

lemma consistent_ma_step: "consistent t \<Longrightarrow> consistent (p_ma_step df row p t)"
  by (simp add: p_ma_step_def Let_def consistent_vote)

lemma consistent_ma: "consistent t \<Longrightarrow> consistent (p_ma df t)"
  by (simp add: p_ma_def consistent_ma_step)

lemma consistent_obv: "consistent t \<Longrightarrow> consistent (p_obv df t)"
  by (simp add: p_obv_def Let_def consistent_vote)

lemma consistent_adx: "consistent t \<Longrightarrow> consistent (p_adx ind t)"
  by (auto simp: p_adx_def consistent_def add_total_def add_neutral_def split: option.splits)

lemma consistent_tally_of: "consistent (tally_of ind df)"
proof -
  have "consistent \<lparr>bullish_signals = 0, bearish_signals = 0, neutral_signals = 0, total_signals = 0\<rparr>"
    by (simp add: consistent_def)
  then show ?thesis
    unfolding tally_of_def
    by (intro consistent_adx consistent_obv consistent_ma consistent_mfi consistent_bollinger
        consistent_stochastic consistent_macd consistent_rsi)
qed


lemma percentages_returns:
  assumes "total_signals t = 0 \<or> 0 < bullish_signals t + bearish_signals t + neutral_signals t"
  shows "\<exists>a b c. percentages t = Inr (a, b, c)"
proof (cases "0 < total_signals t")
  case False
  then have "percentages t = Inr (33.33, 33.33, 33.34)" by (simp add: percentages_def)
  then show ?thesis by blast
next
  case True
  with assms have pos: "0 < bullish_signals t + bearish_signals t + neutral_signals t" by simp
  define n where "n = (of_nat (total_signals t) :: rat)"
  define x where "x = (of_nat (bullish_signals t) :: rat) / n * 100"
  define y where "y = (of_nat (bearish_signals t) :: rat) / n * 100"
  define z where "z = (of_nat (neutral_signals t) :: rat) / n * 100"
  have n: "0 < n" using True by (simp add: n_def)
  have "x + y + z
      = of_nat (bullish_signals t + bearish_signals t + neutral_signals t) / n * 100"
    by (simp add: x_def y_def z_def add_divide_distrib distrib_right)
  moreover have "(of_nat (bullish_signals t + bearish_signals t + neutral_signals t) :: rat) > 0"
    using pos by (simp only: of_nat_0_less_iff)
  ultimately have "x + y + z > 0" using n by simp
  then have nz: "x + y + z \<noteq> 0" by simp
  have "percentages t =
      (if x + y + z \<noteq> 100
       then Inr (x / (x + y + z) * 100, y / (x + y + z) * 100, z / (x + y + z) * 100)
       else Inr (x, y, z))"
    using True nz by (simp add: percentages_def Let_def x_def y_def z_def n_def)
  then show ?thesis by (cases "x + y + z = 100") simp_all
qed




text \<open>
  Outside the amended claim: a MACD histogram of exactly 0 is counted as a signal without
  a vote, and when it is the only signal the renormalisation divides by zero.
\<close>

lemma probabilities_zero_division: "calculate_probabilities flat_macd_analysis = Inl ZeroDivisionError"
  by (simp add: example_defs prob_defs)

subsection \<open>Market sentiment\<close>

lemma probabilities_consistent:
  assumes "calculate_probabilities self = Inr (Some p)"
  shows "bullish_signals p + bearish_signals p \<le> total_signals p"
proof -
  from assms obtain df where df: "data self = Some df"
    by (auto simp: calculate_probabilities_def split: option.splits)
  define t where "t = tally_of (indicators self) df"
  have "consistent t" unfolding t_def by (rule consistent_tally_of)
  moreover have "bullish_signals p = bullish_signals t" "bearish_signals p = bearish_signals t"
    "total_signals p = total_signals t"
    using assms df
    by (auto simp: calculate_probabilities_def Let_def t_def split: if_splits sum.splits prod.splits)
  ultimately show ?thesis by (simp add: consistent_def)
qed

lemma share_bounded:
  fixes x w :: rat
  assumes "\<bar>x\<bar> \<le> w" and "0 < w"
  shows "\<bar>x / w * 20\<bar> \<le> 20"
proof -
  have "\<bar>x / w\<bar> = \<bar>x\<bar> / w" using assms(2) by simp
  also have "\<dots> \<le> 1" using assms by simp
  finally have "\<bar>x / w\<bar> * 20 \<le> 1 * 20" by (intro mult_right_mono) simp_all
  then show ?thesis by (simp add: abs_mult)
qed

lemma bias_bounded:
  fixes b e n :: nat
  assumes "b + e \<le> n" and "0 < n"
  shows "\<bar>(of_nat b - of_nat e) / (of_nat n :: rat) * 20\<bar> \<le> 20"
proof (rule share_bounded)
  have "(of_nat b :: rat) + of_nat e \<le> of_nat n"
    using assms(1) by (metis of_nat_add of_nat_le_iff)
  moreover have "0 \<le> (of_nat b :: rat)" "0 \<le> (of_nat e :: rat)" by simp_all
  ultimately show "\<bar>(of_nat b :: rat) - of_nat e\<bar> \<le> of_nat n" by linarith
  show "0 < (of_nat n :: rat)" using assms(2) by simp
qed

text \<open>
  Claim C3. Whenever \<open>get_market_sentiment\<close> returns, the trend strength it returns,
  after the adjustment by the signal bias, lies in \<open>[-100, 100]\<close>; it even lies in
  \<open>[-70, 70]\<close>, since the normalised score is at most 50 in size and the bias at most 20.
\<close>

theorem C3_sentiment_strength_range:
  assumes "get_market_sentiment self = Inr (mood, strength, why)"
  shows "- 100 \<le> strength \<and> strength \<le> 100 \<and> \<bar>strength\<bar> \<le> 70"
proof -
  from assms obtain ts reasoning p where
    ts: "calculate_trend_strength self = Inr (ts, reasoning)" and
    p: "calculate_probabilities self = Inr (Some p)" and
    st: "strength = (if 0 < total_signals p
           then ts + (of_nat (bullish_signals p) - of_nat (bearish_signals p))
                  / of_nat (total_signals p) * 20
           else ts)"
    by (auto simp: get_market_sentiment_def Let_def split: sum.splits option.splits prod.splits)
  have a: "\<bar>ts\<bar> \<le> 50" using ts by (rule trend_strength_range)
  have "\<bar>strength\<bar> \<le> 70"
  proof (cases "0 < total_signals p")
    case True
    define bias where "bias = (of_nat (bullish_signals p) - of_nat (bearish_signals p))
            / (of_nat (total_signals p) :: rat) * 20"
    have "\<bar>bias\<bar> \<le> 20"
      unfolding bias_def using probabilities_consistent [OF p] True by (rule bias_bounded)
    moreover have "strength = ts + bias" using st True by (simp only: bias_def if_True)
    ultimately show ?thesis using a by linarith
  next
    case False
    with a st show ?thesis by simp
  qed
  then show ?thesis by linarith
qed

text \<open>
  The method does return for a non-empty series with a non-empty indicator dict, unless
  the renormalisation of the probabilities divides by zero.
\<close>

lemma trend_totals_returns:
  assumes "data self = Some df" and "candles df \<noteq> []"
  shows "\<exists>acc. trend_totals self = Inr acc"
  using assms by (simp add: trend_totals_def obv_block_def Let_def)

lemma sentiment_returns:
  assumes "data self = Some df" and "candles df \<noteq> []" and "\<not> no_indicators (indicators self)"
    and "total_signals (tally_of (indicators self) df) = 0
         \<or> 0 < bullish_signals (tally_of (indicators self) df)
               + bearish_signals (tally_of (indicators self) df)
               + neutral_signals (tally_of (indicators self) df)"
  shows "\<exists>mood strength why. get_market_sentiment self = Inr (mood, strength, why)"
proof -
  from trend_totals_returns [OF assms(1,2)] obtain acc where "trend_totals self = Inr acc" ..
  then have "\<exists>ts reasoning. calculate_trend_strength self = Inr (ts, reasoning)"
    using assms(3) by (simp add: calculate_trend_strength_def Let_def)
  then obtain ts reasoning where ts: "calculate_trend_strength self = Inr (ts, reasoning)"
    by blast
  from percentages_returns [OF assms(4)] obtain a b c
    where "percentages (tally_of (indicators self) df) = Inr (a, b, c)" by blast
  then have "\<exists>p. calculate_probabilities self = Inr (Some p)"
    using assms(1-3) by (simp add: calculate_probabilities_def Let_def)
  then obtain p where p: "calculate_probabilities self = Inr (Some p)" by blast
  show ?thesis
    using ts p by (auto simp: get_market_sentiment_def Let_def split: prod.splits)
qed

lemma sentiment_rsi_75:
  "get_market_sentiment (rsi_analysis 75)
     = Inr (Very_Bullish, 70, (Strong_upward, Reasons [RSI_overbought (Fin 75)], Some (1, 0, 0)))"
  by (simp add: get_market_sentiment_def classify_def example_defs trend_defs prob_defs
      round2_def round_half_even_def Let_def)

text \<open>The theorem at an object whose only indicator is an RSI of 75: the strength is 70.\<close>

theorem C3_witness:
  "get_market_sentiment (rsi_analysis 75)
     = Inr (Very_Bullish, 70, (Strong_upward, Reasons [RSI_overbought (Fin 75)], Some (1, 0, 0)))
   \<and> - 100 \<le> (70 :: rat) \<and> (70 :: rat) \<le> 100"
  using C3_sentiment_strength_range [OF sentiment_rsi_75] sentiment_rsi_75 by simp

subsection \<open>Candlestick patterns\<close>

lemma scan_fold_append:
  "fold (\<lambda>i ps. case test d i of None \<Rightarrow> ps
                 | Some (name, sig, rel) \<Rightarrow> add_pattern d i name sig rel ps) js ps
   = ps @ fold (\<lambda>i ps. case test d i of None \<Rightarrow> ps
                 | Some (name, sig, rel) \<Rightarrow> add_pattern d i name sig rel ps) js []"
proof (induction js arbitrary: ps)
  case Nil
  then show ?case by simp
next
  case (Cons i js)
  show ?case
  proof (cases "test d i")
    case None
    then show ?thesis using Cons.IH [of ps] by simp
  next
    case (Some h)
    obtain name sig rel where h: "h = (name, sig, rel)" by (cases h) auto
    let ?p = "\<lparr>date = Date (d ! i), pattern_name = name, signal = sig, reliability = rel,
                price = Close (d ! i), index = i\<rparr>"
    have "fold (\<lambda>i ps. case test d i of None \<Rightarrow> ps
                 | Some (name, sig, rel) \<Rightarrow> add_pattern d i name sig rel ps) (i # js) ps
        = (ps @ [?p]) @ fold (\<lambda>i ps. case test d i of None \<Rightarrow> ps
                 | Some (name, sig, rel) \<Rightarrow> add_pattern d i name sig rel ps) js []"
      using Cons.IH [of "ps @ [?p]"] Some h by (simp add: add_pattern_def)
    moreover have "fold (\<lambda>i ps. case test d i of None \<Rightarrow> ps
                 | Some (name, sig, rel) \<Rightarrow> add_pattern d i name sig rel ps) (i # js) []
        = [?p] @ fold (\<lambda>i ps. case test d i of None \<Rightarrow> ps
                 | Some (name, sig, rel) \<Rightarrow> add_pattern d i name sig rel ps) js []"
      using Cons.IH [of "[?p]"] Some h by (simp add: add_pattern_def)
    ultimately show ?thesis by simp
  qed
qed

lemma scan_append: "scan first test d ps = ps @ scan first test d []"
  unfolding scan_def by (rule scan_fold_append)

lemma scan_indices:
  "map index (scan first test d []) = filter (\<lambda>i. test d i \<noteq> None) [first..<length d]"
proof -
  let ?step = "\<lambda>i ps. case test d i of None \<Rightarrow> ps
                 | Some (name, sig, rel) \<Rightarrow> add_pattern d i name sig rel ps"
  have "map index (fold ?step js []) = filter (\<lambda>i. test d i \<noteq> None) js" for js
  proof (induction js)
    case Nil
    then show ?case by simp
  next
    case (Cons i js)
    have "fold ?step (i # js) [] = ?step i [] @ fold ?step js []"
      using scan_fold_append [where test = test and d = d and js = js and ps = "?step i []"] by simp
    then show ?case using Cons.IH
      by (auto simp: add_pattern_def split: option.splits)
  qed
  then show ?thesis by (simp add: scan_def)
qed

lemma scan_ascending: "sorted_wrt (<) (map index (scan first test d []))"
  unfolding scan_indices by (rule sorted_wrt_filter) (rule sorted_wrt_upt)

lemmas detect_defs = detect_doji_def detect_hammer_def detect_hanging_man_def
  detect_shooting_star_def detect_inverted_hammer_def detect_spinning_top_def
  detect_marubozu_def detect_long_legged_doji_def detect_dragonfly_doji_def
  detect_gravestone_doji_def detect_engulfing_def detect_harami_def detect_piercing_line_def
  detect_dark_cloud_cover_def detect_tweezer_tops_bottoms_def detect_morning_star_def
  detect_evening_star_def detect_three_white_soldiers_def detect_three_black_crows_def
  detect_three_inside_up_down_def detect_three_outside_up_down_def
  detect_rising_falling_three_methods_def

lemma detectors_are_scans:
  "detect \<in> set detectors \<Longrightarrow> \<exists>first test. detect = scan first test"
  unfolding detectors_def detect_defs by auto

lemma fold_detectors:
  assumes "\<And>detect. detect \<in> set ds \<Longrightarrow> \<exists>first test. detect = scan first test"
  shows "fold (\<lambda>detect patterns. detect d patterns) ds ps
       = ps @ concat (map (\<lambda>detect. detect d []) ds)"
  using assms
proof (induction ds arbitrary: ps)
  case Nil
  then show ?case by simp
next
  case (Cons x ds)
  from Cons.prems [of x] obtain first test where x: "x = scan first test" by auto
  have "x d ps = ps @ x d []" unfolding x by (rule scan_append)
  moreover have "fold (\<lambda>detect patterns. detect d patterns) ds (x d ps)
       = x d ps @ concat (map (\<lambda>detect. detect d []) ds)"
    using Cons.prems by (intro Cons.IH) simp
  ultimately show ?case by simp
qed

text \<open>A hit of a detector is what its test gives at the index of the hit; so the hits
  of the first detector are all named Doji, those of the last one Rising or Falling
  Three Methods.\<close>

lemma scan_fold_hits:
  assumes "p \<in> set (fold (\<lambda>i ps. case test d i of None \<Rightarrow> ps
                 | Some (name, sig, rel) \<Rightarrow> add_pattern d i name sig rel ps) js ps0)"
    and "p \<notin> set ps0"
  shows "test d (index p) = Some (pattern_name p, signal p, reliability p)"
  using assms
proof (induction js arbitrary: ps0)
  case Nil
  then show ?case by simp
next
  case (Cons i js)
  show ?case
  proof (cases "test d i")
    case None
    then show ?thesis using Cons by simp
  next
    case (Some h)
    obtain name sig rel where h: "h = (name, sig, rel)" by (cases h) auto
    let ?q = "\<lparr>date = Date (d ! i), pattern_name = name, signal = sig, reliability = rel,
                price = Close (d ! i), index = i\<rparr>"
    show ?thesis
    proof (cases "p = ?q")
      case True
      then show ?thesis using Some h by simp
    next
      case False
      then have "p \<notin> set (ps0 @ [?q])" using Cons.prems(2) by simp
      moreover have "p \<in> set (fold (\<lambda>i ps. case test d i of None \<Rightarrow> ps
                 | Some (name, sig, rel) \<Rightarrow> add_pattern d i name sig rel ps) js (ps0 @ [?q]))"
        using Cons.prems(1) Some h by (simp add: add_pattern_def)
      ultimately show ?thesis by (rule Cons.IH [rotated])
    qed
  qed
qed

lemma scan_hits:
  assumes "p \<in> set (scan first test d [])"
  shows "test d (index p) = Some (pattern_name p, signal p, reliability p)"
proof (rule scan_fold_hits)
  show "p \<in> set (fold (\<lambda>i ps. case test d i of None \<Rightarrow> ps
                 | Some (name, sig, rel) \<Rightarrow> add_pattern d i name sig rel ps)
               [first..<length d] [])"
    using assms by (simp add: scan_def)
  show "p \<notin> set []" by simp
qed

lemma detect_doji_names: "p \<in> set (detect_doji d []) \<Longrightarrow> pattern_name p = ''Doji''"
  unfolding detect_doji_def by (drule scan_hits) (simp add: doji_at_def split: if_splits)

lemma detect_three_methods_names:
  "p \<in> set (detect_rising_falling_three_methods d []) \<Longrightarrow>
     pattern_name p = ''Rising Three Methods'' \<or> pattern_name p = ''Falling Three Methods''"
  unfolding detect_rising_falling_three_methods_def
  by (drule scan_hits) (simp add: three_methods_at_def split: if_splits)

lemma example_patterns:
  "map (\<lambda>p. (pattern_name p, index p)) (detect_all_patterns marubozu_then_doji)
     = [(''Doji'', 6), (''Bullish Marubozu'', 0), (''Bullish Marubozu'', 1),
        (''Bullish Marubozu'', 2), (''Bullish Marubozu'', 3), (''Bullish Marubozu'', 4),
        (''Bullish Marubozu'', 5)]"
  by code_simp

lemma example_recent:
  "map_option (\<lambda>st. map index (recent_patterns st))
     (get_pattern_statistics (detect_all_patterns marubozu_then_doji)) = Some [1, 2, 3, 4, 5]"
  by code_simp

lemma example_indices:
  "map index (detect_all_patterns marubozu_then_doji) = [6, 0, 1, 2, 3, 4, 5]"
  by code_simp

text \<open>
  Claim C10. \<open>detect_all_patterns\<close> returns the hits of the detectors one detector after
  the other, in the order in which they are called, and the hits of each detector in
  strictly ascending index order. The whole list is not in index order: for six equal
  bars without shadows followed by a small-bodied bar, the Doji at index 6 comes first,
  and the \<open>recent_patterns\<close> of the statistics, the last five list elements, are the hits
  at the indices 1 to 5, although there is a hit at index 6.
\<close>

theorem C10_patterns_grouped_by_detector:
  "detect_all_patterns d = concat (map (\<lambda>detect. detect d []) detectors)
   \<and> (\<forall>detect \<in> set detectors. sorted_wrt (<) (map index (detect d [])))
   \<and> \<not> sorted (map index (detect_all_patterns marubozu_then_doji))
   \<and> map_option (\<lambda>st. map index (recent_patterns st))
        (get_pattern_statistics (detect_all_patterns marubozu_then_doji)) = Some [1, 2, 3, 4, 5]
   \<and> 6 \<in> set (map index (detect_all_patterns marubozu_then_doji))"
proof -
  have "detect_all_patterns d = concat (map (\<lambda>detect. detect d []) detectors)"
    unfolding detect_all_patterns_def
    using fold_detectors [of detectors d "[]"] detectors_are_scans by simp
  moreover have "\<forall>detect \<in> set detectors. sorted_wrt (<) (map index (detect d []))"
    using detectors_are_scans scan_ascending by metis
  moreover have "\<not> sorted (map index (detect_all_patterns marubozu_then_doji))"
    unfolding example_indices by simp
  moreover have "6 \<in> set (map index (detect_all_patterns marubozu_then_doji))"
    unfolding example_indices by simp
  ultimately show ?thesis using example_recent by blast
qed

text \<open>The theorem at that series.\<close>

theorem C10_witness:
  "detect_all_patterns marubozu_then_doji
     = concat (map (\<lambda>detect. detect marubozu_then_doji []) detectors)
   \<and> list_all (\<lambda>detect. sorted_wrt (<) (map index (detect marubozu_then_doji []))) detectors
   \<and> map index (detect_all_patterns marubozu_then_doji) = [6, 0, 1, 2, 3, 4, 5]"
  using C10_patterns_grouped_by_detector [of marubozu_then_doji] example_indices
  by (simp add: list_all_iff)

subsection \<open>The primary pattern\<close>

lemma stable_sort_head:
  fixes f :: "'a \<Rightarrow> int"
  assumes "sort_key f xs = m # rest"
  shows "\<exists>before after. xs = before @ m # after
           \<and> (\<forall>x \<in> set before. f m < f x) \<and> (\<forall>x \<in> set after. f m \<le> f x)"
proof -
  have sorted: "sorted (map f (m # rest))" using assms by (metis sorted_sort_key)
  have set_eq: "set xs = set (m # rest)" using assms by (metis set_sort)
  have least: "f m \<le> f x" if "x \<in> set xs" for x
    using sorted set_eq that by auto
  have "filter (\<lambda>y. f y = f m) xs = filter (\<lambda>y. f y = f m) (sort_key f xs)"
    by (simp add: sort_key_stable)
  also have "\<dots> = m # filter (\<lambda>y. f y = f m) rest" using assms by simp
  finally obtain before after where xs: "xs = before @ m # after"
    and before: "\<forall>u \<in> set before. f u \<noteq> f m"
    by (auto simp: filter_eq_Cons_iff)
  have "\<forall>x \<in> set before. f m < f x"
  proof
    fix x assume x: "x \<in> set before"
    then have "f m \<le> f x" using least xs by simp
    moreover have "f x \<noteq> f m" using before x by simp
    ultimately show "f m < f x" by simp
  qed
  moreover have "\<forall>x \<in> set after. f m \<le> f x" using least xs by simp
  ultimately show ?thesis using xs by blast
qed

lemma rank_values:
  "reliability p = ''High'' \<Longrightarrow> reliability_rank p = 3"
  "reliability p = ''Medium'' \<Longrightarrow> reliability_rank p = 2"
  "reliability p = ''Very High'' \<Longrightarrow> reliability_rank p = 4"
  "reliability p = ''Low'' \<Longrightarrow> reliability_rank p = 1"
  by (simp_all add: reliability_rank_def reliability_order_def)

text \<open>
  Claim C4. When some pattern has a given index, the pattern chosen for that index is
  one of the patterns at that index with the highest reliability rank (Very High 4,
  High 3, Medium 2, Low 1), and among those the first in detection order: every pattern
  at the index that was detected before it has a strictly lower rank, every later one a
  rank that is not higher. In particular, of a High and a Medium pattern at one index the
  High one is chosen, whichever was detected first.
\<close>

theorem C4_primary_pattern:
  "(\<forall>p0. p0 \<in> set patterns \<and> index p0 = idx \<and> idx < n \<longrightarrow>
      (\<exists>m before after.
          main_pattern n patterns idx = Some m
        \<and> filter (\<lambda>p. index p = idx) patterns = before @ m # after
        \<and> (\<forall>p \<in> set before. reliability_rank p < reliability_rank m)
        \<and> (\<forall>p \<in> set after. reliability_rank p \<le> reliability_rank m)))
   \<and> (\<forall>a b. reliability a = ''High'' \<and> reliability b = ''Medium''
          \<and> index a = idx \<and> index b = idx \<and> idx < n \<longrightarrow>
          main_pattern n [a, b] idx = Some a \<and> main_pattern n [b, a] idx = Some a)"
proof (intro conjI allI impI)
  fix p0 :: pattern assume "p0 \<in> set patterns \<and> index p0 = idx \<and> idx < n"
  then have p0: "p0 \<in> set patterns" "index p0 = idx" and n: "idx < n" by simp_all
  let ?g = "filter (\<lambda>p. index p = idx) patterns"
  let ?f = "\<lambda>p. - int (reliability_rank p)"
  have "?g \<noteq> []" using p0 by (auto simp: filter_empty_conv)
  then have "sort_key ?f ?g \<noteq> []" by (metis length_0_conv length_sort)
  then obtain m rest where s: "sort_key ?f ?g = m # rest" by (cases "sort_key ?f ?g") auto
  from stable_sort_head [OF s] obtain before after where
    g: "?g = before @ m # after" and
    b: "\<forall>x \<in> set before. ?f m < ?f x" and a: "\<forall>x \<in> set after. ?f m \<le> ?f x" by blast
  have "main_pattern n patterns idx = Some m"
    using s n by (simp add: main_pattern_def pattern_groups_def sort_by_reliability_def)
  moreover have "\<forall>p \<in> set before. reliability_rank p < reliability_rank m" using b by simp
  moreover have "\<forall>p \<in> set after. reliability_rank p \<le> reliability_rank m" using a by simp
  ultimately show "\<exists>m before after.
          main_pattern n patterns idx = Some m
        \<and> filter (\<lambda>p. index p = idx) patterns = before @ m # after
        \<and> (\<forall>p \<in> set before. reliability_rank p < reliability_rank m)
        \<and> (\<forall>p \<in> set after. reliability_rank p \<le> reliability_rank m)"
    using g by blast
next
  fix a b :: pattern
  assume h: "reliability a = ''High'' \<and> reliability b = ''Medium''
          \<and> index a = idx \<and> index b = idx \<and> idx < n"
  then have r: "reliability_rank a = 3" "reliability_rank b = 2" by (simp_all add: rank_values)
  show "main_pattern n [a, b] idx = Some a"
    using h r by (simp add: main_pattern_def pattern_groups_def sort_by_reliability_def)
  show "main_pattern n [b, a] idx = Some a"
    using h r by (simp add: main_pattern_def pattern_groups_def sort_by_reliability_def)
qed

text \<open>Every index at which the charts mark a pattern has a pattern in the list.\<close>

lemma sorted_indices_have_patterns:
  assumes "idx \<in> set (sorted_indices limit n patterns)"
  shows "\<exists>p0 \<in> set patterns. index p0 = idx \<and> idx < n"
proof -
  from assms have "idx \<in> set (sort (remdups (map index (filter (\<lambda>p. index p < n) patterns))))"
    unfolding sorted_indices_def by (rule in_slice_from)
  then show ?thesis by auto
qed

text \<open>
  In the zigzag series a Doji (Medium), a Spinning Top (Low) and a Long-Legged Doji
  (Medium) share index 0; the Doji, detected first, is chosen.
\<close>

lemma zigzag_main:
  "map_option pattern_name (main_pattern (length zigzag) (detect_all_patterns zigzag) 0) = Some ''Doji''"
  by code_simp

lemma zigzag_group:
  "map (\<lambda>p. (pattern_name p, reliability p)) (filter (\<lambda>p. index p = 0) (detect_all_patterns zigzag))
   = [(''Doji'', ''Medium''), (''Spinning Top'', ''Low''), (''Long-Legged Doji'', ''Medium'')]"
  by code_simp

text \<open>The theorem at a Medium pattern followed by a High one, and at the zigzag series.\<close>

theorem C4_witness:
  "main_pattern 1 [example_pattern ''Doji'' ''Medium'' 0, example_pattern ''Hammer'' ''High'' 0] 0
     = Some (example_pattern ''Hammer'' ''High'' 0)
   \<and> map_option pattern_name (main_pattern (length zigzag) (detect_all_patterns zigzag) 0)
     = Some ''Doji''"
  using C4_primary_pattern [of "[example_pattern ''Doji'' ''Medium'' 0,
      example_pattern ''Hammer'' ''High'' 0]" 0 1] zigzag_main
  by (simp add: example_pattern_def)

end
